theory Spec2Isabelle
  imports Complex_Main "HOL-Library.Multiset" "HOL-Library.Sublist" "HOL-Library.Log_Nat"
begin

section \<open>Numbers\<close>

text \<open>
  A TypeScript \<open>number\<close> that the program reads from validated records (amounts,
  rates, percentages) is modelled as an exact \<open>real\<close>: rounding error, overflow and the
  sign of zero are outside the model. Where the code itself can return or store the
  values \<open>Infinity\<close> or \<open>NaN\<close> (the runway of a household with no monthly burn, the
  cashflow ratios), the value has the type \<open>number\<close> below, which adds the three special
  values to the reals. Zero is unsigned: a non-zero finite value divided by zero is taken
  with the sign of the dividend.

  There is one place where the rounding of doubles decides what the program returns:
  \<open>compareStrategies\<close> subtracts two stored amounts and compares the difference with
  a threshold. There the arithmetic is that of IEEE 754 double precision, given by the
  function \<open>double\<close> of the subsection on doubles below.
\<close>

datatype number = Num real | PosInfinity | NegInfinity | NaN

fun js_add :: "number \<Rightarrow> number \<Rightarrow> number" where
  "js_add (Num a) (Num b) = Num (a + b)"
| "js_add NaN y = NaN"
| "js_add x NaN = NaN"
| "js_add PosInfinity NegInfinity = NaN"
| "js_add NegInfinity PosInfinity = NaN"
| "js_add PosInfinity y = PosInfinity"
| "js_add x PosInfinity = PosInfinity"
| "js_add NegInfinity y = NegInfinity"
| "js_add x NegInfinity = NegInfinity"

fun js_neg :: "number \<Rightarrow> number" where
  "js_neg (Num a) = Num (- a)"
| "js_neg PosInfinity = NegInfinity"
| "js_neg NegInfinity = PosInfinity"
| "js_neg NaN = NaN"

text \<open>The sign of a value that is not \<open>NaN\<close>: \<open>-1\<close>, \<open>0\<close> or \<open>1\<close>.\<close>

fun js_sign :: "number \<Rightarrow> int" where
  "js_sign (Num a) = (if a < 0 then -1 else if a = 0 then 0 else 1)"
| "js_sign PosInfinity = 1"
| "js_sign NegInfinity = -1"
| "js_sign NaN = 0"

definition signed_infinity :: "int \<Rightarrow> number" where
  "signed_infinity s = (if s < 0 then NegInfinity else PosInfinity)"

fun js_mul :: "number \<Rightarrow> number \<Rightarrow> number" where
  "js_mul (Num a) (Num b) = Num (a * b)"
| "js_mul NaN y = NaN"
| "js_mul x NaN = NaN"
| "js_mul x y =
     (if js_sign x = 0 \<or> js_sign y = 0 then NaN
      else signed_infinity (js_sign x * js_sign y))"

fun js_div :: "number \<Rightarrow> number \<Rightarrow> number" where
  "js_div (Num a) (Num b) =
     (if b = 0 then (if a = 0 then NaN else signed_infinity (js_sign (Num a)))
      else Num (a / b))"
| "js_div NaN y = NaN"
| "js_div x NaN = NaN"
| "js_div (Num a) y = Num 0"
| "js_div x (Num b) = signed_infinity (js_sign x * (if b < 0 then -1 else 1))"
| "js_div x y = NaN"

text \<open>\<open>Math.round\<close>: the nearest integer, a half rounded towards positive infinity.\<close>

fun js_round :: "number \<Rightarrow> number" where
  "js_round (Num a) = Num (of_int \<lfloor>a + 1 / 2\<rfloor>)"
| "js_round x = x"

text \<open>Strict equality \<open>===\<close> and the comparisons; every comparison with \<open>NaN\<close> is false.\<close>

fun js_eq :: "number \<Rightarrow> number \<Rightarrow> bool" where
  "js_eq (Num a) (Num b) = (a = b)"
| "js_eq NaN y = False"
| "js_eq x NaN = False"
| "js_eq x y = (x = y)"

fun js_lt :: "number \<Rightarrow> number \<Rightarrow> bool" where
  "js_lt (Num a) (Num b) = (a < b)"
| "js_lt NaN y = False"
| "js_lt x NaN = False"
| "js_lt NegInfinity y = (y \<noteq> NegInfinity)"
| "js_lt x PosInfinity = (x \<noteq> PosInfinity)"
| "js_lt x y = False"

definition js_ge :: "number \<Rightarrow> number \<Rightarrow> bool" where
  "js_ge x y = (js_lt y x \<or> js_eq x y)"

text \<open>\<open>Math.round(x * 100) / 100\<close> on a finite value.\<close>

definition round2 :: "real \<Rightarrow> real" where
  "round2 x = of_int \<lfloor>x * 100 + 1 / 2\<rfloor> / 100"


subsection \<open>Doubles\<close>


definition binade :: "real \<Rightarrow> int" where
  "binade y = (if y \<ge> 1 then int (floorlog 2 (nat \<lfloor>y\<rfloor>)) - 1
               else - int (floorlog 2 (nat \<lceil>1 / y\<rceil> - 1)))"





section \<open>Sorting\<close>

text \<open>
  \<open>Array.prototype.sort\<close> is stable, and a comparator \<open>(a, b) => key(a) - key(b)\<close>
  on finite keys is a consistent order, so the sorted array is the stable sort by that
  key, which is the library's \<open>sort_key\<close>. A comparator \<open>(a, b) => key(b) - key(a)\<close>
  sorts in descending order of the key, that is, in ascending order of its negation.
\<close>


section \<open>Cashflow calculations (src/lib/calc/cashflow.ts)\<close>

definition calculateFreeCashflow :: "number \<Rightarrow> number \<Rightarrow> number \<Rightarrow> number" where
  "calculateFreeCashflow totalIncome totalExpenses totalEmi =
     js_add (js_add totalIncome (js_neg totalExpenses)) (js_neg totalEmi)"

definition calculateSavingsRate :: "number \<Rightarrow> number \<Rightarrow> number" where
  "calculateSavingsRate freeCashflow' totalIncome =
     (if js_eq totalIncome (Num 0) then Num 0
      else
        let rate = js_mul (js_div freeCashflow' totalIncome) (Num 100)
        in js_div (js_round (js_mul rate (Num 10))) (Num 10))"

definition calculateRunway :: "number \<Rightarrow> number \<Rightarrow> number \<Rightarrow> number" where
  "calculateRunway liquidAssets' monthlyExpenses monthlyEmi =
     (let monthlyBurn = js_add monthlyExpenses monthlyEmi
      in if js_eq monthlyBurn (Num 0) then PosInfinity
         else
           let runway = js_div liquidAssets' monthlyBurn
           in js_div (js_round (js_mul runway (Num 10))) (Num 10))"

definition calculateDebtToIncomeRatio :: "number \<Rightarrow> number \<Rightarrow> number" where
  "calculateDebtToIncomeRatio totalEmi totalIncome =
     (if js_eq totalIncome (Num 0) then Num 0
      else
        let ratio = js_mul (js_div totalEmi totalIncome) (Num 100)
        in js_div (js_round (js_mul ratio (Num 10))) (Num 10))"


section \<open>Rules engine (src/lib/rules/index.ts)\<close>

datatype AlertSeverity = High | Medium | Low

text \<open>
  The user-facing texts are template literals. A message is kept as the sequence of its
  parts, each formatted number with the formatting call the source applies to it, so
  that no number formatting has to be modelled.
\<close>

datatype msg_part =
    Lit string
  | ToFixed nat number
  | ToLocaleString real
  | NumToString real
  | ToUpperCase string

record Alert =
  id_alert :: string
  severity :: AlertSeverity
  title :: string
  message :: "msg_part list"
  action :: "msg_part list"

text \<open>
  \<open>assetAllocation\<close> is a \<open>Record<string, number>\<close> that is only looked up by key;
  \<open>allocationTargets\<close> is only enumerated with \<open>Object.entries\<close>, so it is the list
  of its entries in the object's own order.
\<close>

record RulesContext =
  totalMonthlyIncome :: real
  totalMonthlyExpenses :: real
  totalMonthlyEmi :: real
  freeCashflow :: real
  savingsRate :: real
  liquidAssets :: real
  totalAssets :: real
  assetAllocation :: "string \<rightharpoonup> real"
  totalLiabilities :: real
  highestDebtApr :: real
  ccBalance :: real
  hasHighAprDebt :: bool
  emergencyFundMonthsTarget :: real
  emiToIncomeMaxPercent :: real
  ccUtilizationMaxPercent :: real
  allocationTargets :: "(string \<times> real) list"
  runwayMonths :: number
  debtToIncomeRatio :: real

type_synonym RuleFunction = "RulesContext \<Rightarrow> Alert option"

definition checkEmergencyFund :: RuleFunction where
  "checkEmergencyFund ctx =
     (if js_ge (runwayMonths ctx) (Num (emergencyFundMonthsTarget ctx)) then None
      else
        let sev = (if js_lt (runwayMonths ctx) (Num 3) then High
                   else if js_lt (runwayMonths ctx) (Num 5) then Medium else Low)
        in Some \<lparr>id_alert = ''emergency-fund'',
                 severity = sev,
                 title = ''Emergency Fund Low'',
                 message = [Lit ''Your emergency fund covers '', ToFixed 1 (runwayMonths ctx),
                            Lit '' months. Target is '',
                            NumToString (emergencyFundMonthsTarget ctx), Lit '' months.''],
                 action = (if sev = High
                           then [Lit ''Prioritize building emergency fund before other investments'']
                           else [Lit ''Consider allocating more savings to your emergency fund''])\<rparr>)"

definition checkCreditCardUtilization :: RuleFunction where
  "checkCreditCardUtilization ctx =
     (if ccBalance ctx = 0 \<or> totalMonthlyIncome ctx = 0 then None
      else
        let utilizationPercent = (ccBalance ctx / totalMonthlyIncome ctx) * 100
        in if utilizationPercent \<le> ccUtilizationMaxPercent ctx then None
           else
             let sev = (if utilizationPercent > 100 then High
                        else if utilizationPercent > 50 then Medium else Low)
             in Some \<lparr>id_alert = ''cc-utilization'',
                      severity = sev,
                      title = ''High Credit Card Balance'',
                      message = [Lit ''Credit card balance is '', ToFixed 0 (Num utilizationPercent),
                                 Lit ''% of monthly income. Consider paying down to below '',
                                 NumToString (ccUtilizationMaxPercent ctx), Lit ''%.''],
                      action = [Lit ''Pay off credit card balance to avoid high interest charges'']\<rparr>)"

definition checkEmiToIncome :: RuleFunction where
  "checkEmiToIncome ctx =
     (if totalMonthlyIncome ctx = 0 then None
      else
        let emiPercent = (totalMonthlyEmi ctx / totalMonthlyIncome ctx) * 100
        in if emiPercent \<le> emiToIncomeMaxPercent ctx then None
           else
             let sev = (if emiPercent > 50 then High
                        else if emiPercent > 40 then Medium else Low)
             in Some \<lparr>id_alert = ''emi-income-ratio'',
                      severity = sev,
                      title = ''High EMI Burden'',
                      message = [Lit ''EMIs consume '', ToFixed 1 (Num emiPercent),
                                 Lit ''% of income (recommended: <'',
                                 NumToString (emiToIncomeMaxPercent ctx), Lit ''%).''],
                      action = (if sev = High
                                then [Lit ''Consider debt consolidation or refinancing options'']
                                else [Lit ''Avoid taking on new debt until EMI ratio improves''])\<rparr>)"

definition checkHighAprDebtWithInvestments :: RuleFunction where
  "checkHighAprDebtWithInvestments ctx =
     (if \<not> hasHighAprDebt ctx then None
      else
        let investmentValue =
              liquidAssets ctx -
              emergencyFundMonthsTarget ctx * (totalMonthlyExpenses ctx + totalMonthlyEmi ctx)
        in if investmentValue \<le> 0 then None
           else Some \<lparr>id_alert = ''high-apr-with-investments'',
                      severity = Medium,
                      title = ''High Interest Debt Coexists with Investments'',
                      message = [Lit ''You have debt at '', ToFixed 1 (Num (highestDebtApr ctx)),
                                 Lit ''% APR while holding investments. Debt interest likely exceeds investment returns.''],
                      action = [Lit ''Consider using liquid investments to pay off high-interest debt first'']\<rparr>)"

text \<open>The rupee sign U+20B9 of the message, as its three UTF-8 bytes.\<close>

definition rupee :: string where
  "rupee = [CHR 0xE2, CHR 0x82, CHR 0xB9]"

definition checkNegativeCashflow :: RuleFunction where
  "checkNegativeCashflow ctx =
     (if freeCashflow ctx \<ge> 0 then None
      else Some \<lparr>id_alert = ''negative-cashflow'',
                 severity = High,
                 title = ''Negative Monthly Cashflow'',
                 message = [Lit ''You're spending '', Lit rupee, ToLocaleString \<bar>freeCashflow ctx\<bar>,
                            Lit '' more than you earn each month.''],
                 action = [Lit ''Review and reduce discretionary expenses immediately'']\<rparr>)"

definition checkSavingsRate :: RuleFunction where
  "checkSavingsRate ctx =
     (if savingsRate ctx \<ge> 20 then None
      else if savingsRate ctx < 0 then None
      else
        let sev = (if savingsRate ctx < 5 then Medium
                   else if savingsRate ctx < 10 then Low else Low)
        in Some \<lparr>id_alert = ''low-savings-rate'',
                 severity = sev,
                 title = ''Low Savings Rate'',
                 message = [Lit ''Your savings rate is '', ToFixed 1 (Num (savingsRate ctx)),
                            Lit ''%. Target at least 20% for long-term wealth building.''],
                 action = [Lit ''Look for ways to increase income or reduce fixed expenses'']\<rparr>)"

record Drift =
  type_drift :: string
  actual :: real
  target :: real
  diff :: real

text \<open>
  The loop over \<open>Object.entries(ctx.allocationTargets)\<close> that fills \<open>drifts\<close>;
  \<open>ctx.assetAllocation[type] || 0\<close> is \<open>0\<close> for a missing key. The array is sorted
  in place by descending absolute drift, and \<open>drifts[0]\<close> is read from the sorted
  array, which is not empty at that point.
\<close>

fun collectDrifts :: "RulesContext \<Rightarrow> (string \<times> real) list \<Rightarrow> Drift list \<Rightarrow> Drift list" where
  "collectDrifts ctx [] drifts = drifts"
| "collectDrifts ctx ((ty, tgt) # entries) drifts =
     (let act = (case assetAllocation ctx ty of None \<Rightarrow> 0 | Some v \<Rightarrow> v);
          d = act - tgt
      in if \<bar>d\<bar> > 10
         then collectDrifts ctx entries
                (drifts @ [\<lparr>type_drift = ty, actual = act, target = tgt, diff = d\<rparr>])
         else collectDrifts ctx entries drifts)"

definition checkAllocationDrift :: RuleFunction where
  "checkAllocationDrift ctx =
     (let drifts = collectDrifts ctx (allocationTargets ctx) []
      in if length drifts = 0 then None
         else
           let sorted_drifts = sort_key (\<lambda>d. - \<bar>diff d\<bar>) drifts;
               topDrift = hd sorted_drifts;
               direction = (if diff topDrift > 0 then ''overweight'' else ''underweight'')
           in Some \<lparr>id_alert = ''allocation-drift'',
                    severity = Low,
                    title = ''Portfolio Allocation Drift'',
                    message = [ToUpperCase (type_drift topDrift), Lit '' is '', Lit direction,
                               Lit '' by '', ToFixed 1 (Num \<bar>diff topDrift\<bar>),
                               Lit ''% (actual: '', ToFixed 1 (Num (actual topDrift)),
                               Lit ''%, target: '', NumToString (target topDrift), Lit ''%).''],
                    action = (if diff topDrift > 0
                              then [Lit ''Consider rebalancing: reduce '',
                                    Lit (type_drift topDrift), Lit '' allocation'']
                              else [Lit ''Consider rebalancing: increase '',
                                    Lit (type_drift topDrift), Lit '' allocation''])\<rparr>)"

definition checkNoIncome :: RuleFunction where
  "checkNoIncome ctx =
     (if totalMonthlyIncome ctx > 0 then None
      else Some \<lparr>id_alert = ''no-income'',
                 severity = Medium,
                 title = ''No Income Tracked'',
                 message = [Lit ''No income streams are recorded. Add your income sources for accurate financial tracking.''],
                 action = [Lit ''Go to Cashflow page and add your income streams'']\<rparr>)"

definition RULES :: "RuleFunction list" where
  "RULES = [checkEmergencyFund, checkCreditCardUtilization, checkEmiToIncome,
            checkHighAprDebtWithInvestments, checkNegativeCashflow, checkSavingsRate,
            checkAllocationDrift, checkNoIncome]"

text \<open>The id literals of the eight rules, in the order of the catalogue.\<close>

definition ruleIds :: "string list" where
  "ruleIds = [''emergency-fund'', ''cc-utilization'', ''emi-income-ratio'',
     ''high-apr-with-investments'', ''negative-cashflow'', ''low-savings-rate'',
     ''allocation-drift'', ''no-income'']"

text \<open>
  The loop of \<open>evaluateRules\<close> over the catalogue. No rule contains a \<open>throw\<close> or an
  operation that can fail on a context of the declared type, so the \<open>catch\<close> branch
  (which only logs) has no counterpart here.
\<close>

fun runRules :: "RuleFunction list \<Rightarrow> RulesContext \<Rightarrow> Alert list \<Rightarrow> Alert list" where
  "runRules [] ctx alerts = alerts"
| "runRules (rule # rules) ctx alerts =
     (case rule ctx of
        None \<Rightarrow> runRules rules ctx alerts
      | Some alert \<Rightarrow> runRules rules ctx (alerts @ [alert]))"

fun severityOrder :: "AlertSeverity \<Rightarrow> int" where
  "severityOrder High = 0"
| "severityOrder Medium = 1"
| "severityOrder Low = 2"

definition evaluateRules :: "RulesContext \<Rightarrow> Alert list" where
  "evaluateRules ctx =
     (let alerts = runRules RULES ctx []
      in sort_key (\<lambda>a. severityOrder (severity a)) alerts)"

text \<open>
  The argument object of \<open>buildRulesContext\<close>. Its nested \<open>settings\<close> object is
  flattened into the fields with the suffix \<open>_settings\<close>; the fields that share a
  name with one of \<open>RulesContext\<close> carry the suffix \<open>_data\<close>.
\<close>

record RulesData =
  income :: real
  expenses :: real
  emi :: real
  liquidAssets_data :: real
  totalAssets_data :: real
  totalLiabilities_data :: real
  ccBalance_data :: real
  highestApr :: real
  assetAllocation_data :: "string \<rightharpoonup> real"
  emergencyFundMonthsTarget_settings :: real
  emiToIncomeMaxPercent_settings :: real
  ccUtilizationMaxPercent_settings :: real
  allocationTargets_settings :: "(string \<times> real) list"

definition buildRulesContext :: "RulesData \<Rightarrow> RulesContext" where
  "buildRulesContext data =
     (let monthlyBurn = expenses data + emi data;
          runwayMonths' = (if monthlyBurn > 0 then Num (liquidAssets_data data / monthlyBurn)
                           else PosInfinity);
          freeCashflow' = income data - expenses data - emi data;
          savingsRate' = (if income data > 0 then (freeCashflow' / income data) * 100 else 0);
          debtToIncomeRatio' = (if income data > 0 then (emi data / income data) * 100 else 0)
      in \<lparr>totalMonthlyIncome = income data,
          totalMonthlyExpenses = expenses data,
          totalMonthlyEmi = emi data,
          freeCashflow = freeCashflow',
          savingsRate = savingsRate',
          liquidAssets = liquidAssets_data data,
          totalAssets = totalAssets_data data,
          assetAllocation = assetAllocation_data data,
          totalLiabilities = totalLiabilities_data data,
          highestDebtApr = highestApr data,
          ccBalance = ccBalance_data data,
          hasHighAprDebt = (highestApr data > 0.15),
          emergencyFundMonthsTarget = emergencyFundMonthsTarget_settings data,
          emiToIncomeMaxPercent = emiToIncomeMaxPercent_settings data,
          ccUtilizationMaxPercent = ccUtilizationMaxPercent_settings data,
          allocationTargets = allocationTargets_settings data,
          runwayMonths = runwayMonths',
          debtToIncomeRatio = debtToIncomeRatio'\<rparr>)"


section \<open>Debt payoff simulator (src/lib/calc/payoff.ts)\<close>

record DebtForPayoff =
  id_debt :: string
  name :: string
  balance :: real
  apr :: real
  minPayment :: real

datatype Strategy = Avalanche | Snowball

record PayoffMonth =
  month :: int
  balance_pm :: real
  principal :: real
  interest :: real
  payment :: real

record PayoffDebtResult =
  debtId :: string
  debtName :: string
  payoffMonth :: int
  totalPaid :: real
  totalInterest :: real
  monthlyBreakdown :: "PayoffMonth list"

record PayoffSimulation =
  strategy :: Strategy
  extraPayment :: real
  debts :: "PayoffDebtResult list"
  totalMonths :: int
  totalInterestPaid :: real
  monthsSaved :: int
  interestSaved :: real

definition calculateMonthlyInterest :: "real \<Rightarrow> real \<Rightarrow> real" where
  "calculateMonthlyInterest bal rate = (let monthlyRate = rate / 12 in bal * monthlyRate)"

subsection \<open>Strategy ordering\<close>

definition sortForAvalanche :: "DebtForPayoff list \<Rightarrow> DebtForPayoff list" where
  "sortForAvalanche ds = sort_key (\<lambda>d. - apr d) ds"

definition sortForSnowball :: "DebtForPayoff list \<Rightarrow> DebtForPayoff list" where
  "sortForSnowball ds = sort_key (\<lambda>d. balance d) ds"

text \<open>
  The two functions at the level of the arrays they touch. A store holds every array
  under its address (its index in the store); \<open>[...debts]\<close> allocates a new array with
  the elements of \<open>debts\<close>, and \<open>sort\<close> sorts the array it is called on in place and
  returns that same array. The definitions above are the values of the returned arrays.
\<close>

text \<open>
  An address is valid when it is below the length of the store. A TypeScript reference
  always points to an array, so the functions are only ever applied to valid addresses.
\<close>

type_synonym store = "DebtForPayoff list list"

definition spread :: "store \<Rightarrow> nat \<Rightarrow> store \<times> nat" where
  "spread st r = (st @ [st ! r], length st)"

definition sort_in_place :: "(DebtForPayoff \<Rightarrow> real) \<Rightarrow> store \<Rightarrow> nat \<Rightarrow> store \<times> nat" where
  "sort_in_place key st r = (st[r := sort_key key (st ! r)], r)"

definition sortForAvalanche_store :: "store \<Rightarrow> nat \<Rightarrow> store \<times> nat" where
  "sortForAvalanche_store st ds =
     (let (st', copy) = spread st ds in sort_in_place (\<lambda>d. - apr d) st' copy)"

definition sortForSnowball_store :: "store \<Rightarrow> nat \<Rightarrow> store \<times> nat" where
  "sortForSnowball_store st ds =
     (let (st', copy) = spread st ds in sort_in_place (\<lambda>d. balance d) st' copy)"

subsection \<open>Isolated simulation of one debt\<close>

text \<open>The local variables of \<open>simulateDebtPayoff\<close> that its loop updates.\<close>

record DebtPayoffVars =
  v_balance :: real
  v_totalPaid :: real
  v_totalInterest :: real
  v_month :: int
  v_monthlyBreakdown :: "PayoffMonth list"

definition debtPayoffBody :: "DebtForPayoff \<Rightarrow> real \<Rightarrow> DebtPayoffVars \<Rightarrow> DebtPayoffVars" where
  "debtPayoffBody debt monthlyPayment v =
     (let interest' = calculateMonthlyInterest (v_balance v) (apr debt);
          payment' = min monthlyPayment (v_balance v + interest');
          principal' = payment' - interest';
          balance' = max 0 (v_balance v - principal')
      in \<lparr>v_balance = balance',
          v_totalPaid = v_totalPaid v + payment',
          v_totalInterest = v_totalInterest v + interest',
          v_month = v_month v + 1,
          v_monthlyBreakdown = v_monthlyBreakdown v @
            [\<lparr>month = v_month v,
              balance_pm = round2 balance',
              principal = round2 principal',
              interest = round2 interest',
              payment = round2 payment'\<rparr>]\<rparr>)"

function debtPayoffLoop :: "DebtForPayoff \<Rightarrow> real \<Rightarrow> int \<Rightarrow> DebtPayoffVars \<Rightarrow> DebtPayoffVars" where
  "debtPayoffLoop debt monthlyPayment startMonth v =
     (if v_balance v > 0.01 \<and> v_month v - startMonth < 600
      then debtPayoffLoop debt monthlyPayment startMonth (debtPayoffBody debt monthlyPayment v)
      else v)"
  by pat_completeness auto
termination
  by (relation "measure (\<lambda>(debt, monthlyPayment, startMonth, v). nat (600 - (v_month v - startMonth)))")
     (auto simp: debtPayoffBody_def Let_def)

declare debtPayoffLoop.simps [simp del]

text \<open>The number of times the loop body runs: the same recursion, counting.\<close>

function debtPayoffIterations :: "DebtForPayoff \<Rightarrow> real \<Rightarrow> int \<Rightarrow> DebtPayoffVars \<Rightarrow> nat" where
  "debtPayoffIterations debt monthlyPayment startMonth v =
     (if v_balance v > 0.01 \<and> v_month v - startMonth < 600
      then Suc (debtPayoffIterations debt monthlyPayment startMonth
                  (debtPayoffBody debt monthlyPayment v))
      else 0)"
  by pat_completeness auto
termination
  by (relation "measure (\<lambda>(debt, monthlyPayment, startMonth, v). nat (600 - (v_month v - startMonth)))")
     (auto simp: debtPayoffBody_def Let_def)

declare debtPayoffIterations.simps [simp del]

text \<open>The values of the local variables when the loop is entered.\<close>

definition debtPayoffStart :: "DebtForPayoff \<Rightarrow> int \<Rightarrow> DebtPayoffVars" where
  "debtPayoffStart debt startMonth =
     \<lparr>v_balance = balance debt, v_totalPaid = 0, v_totalInterest = 0,
      v_month = startMonth, v_monthlyBreakdown = []\<rparr>"

definition simulateDebtPayoff :: "DebtForPayoff \<Rightarrow> real \<Rightarrow> int \<Rightarrow> PayoffDebtResult" where
  "simulateDebtPayoff debt monthlyPayment startMonth =
     (let v = debtPayoffLoop debt monthlyPayment startMonth (debtPayoffStart debt startMonth)
      in \<lparr>debtId = id_debt debt,
          debtName = name debt,
          payoffMonth = v_month v - 1,
          totalPaid = round2 (v_totalPaid v),
          totalInterest = round2 (v_totalInterest v),
          monthlyBreakdown = v_monthlyBreakdown v\<rparr>)"

subsection \<open>Baseline: minimum payments only\<close>

text \<open>
  The inner loop of \<open>simulatePayoffBaseline\<close> on its variables \<open>balance\<close>, \<open>months\<close>
  and the running \<open>totalInterest\<close>.
\<close>

definition baselineBody :: "DebtForPayoff \<Rightarrow> real \<times> int \<times> real \<Rightarrow> real \<times> int \<times> real" where
  "baselineBody debt = (\<lambda>(bal, months, totalInterest').
     (let interest' = calculateMonthlyInterest bal (apr debt);
          totalInterest'' = totalInterest' + interest';
          payment' = min (minPayment debt) (bal + interest');
          principal' = payment' - interest'
      in (max 0 (bal - principal'), months + 1, totalInterest'')))"

function baselineLoop :: "DebtForPayoff \<Rightarrow> real \<times> int \<times> real \<Rightarrow> real \<times> int \<times> real" where
  "baselineLoop debt (bal, months, totalInterest') =
     (if bal > 0.01 \<and> months < 600
      then baselineLoop debt (baselineBody debt (bal, months, totalInterest'))
      else (bal, months, totalInterest'))"
  by pat_completeness auto
termination
  by (relation "measure (\<lambda>(debt, bal, months, totalInterest'). nat (600 - months))")
     (auto simp: baselineBody_def Let_def)

declare baselineLoop.simps [simp del]

text \<open>The number of times the body of the inner loop runs for one debt.\<close>

function baselineIterations :: "DebtForPayoff \<Rightarrow> real \<times> int \<times> real \<Rightarrow> nat" where
  "baselineIterations debt (bal, months, totalInterest') =
     (if bal > 0.01 \<and> months < 600
      then Suc (baselineIterations debt (baselineBody debt (bal, months, totalInterest')))
      else 0)"
  by pat_completeness auto
termination
  by (relation "measure (\<lambda>(debt, bal, months, totalInterest'). nat (600 - months))")
     (auto simp: baselineBody_def Let_def)

declare baselineIterations.simps [simp del]

fun baselineFor :: "DebtForPayoff list \<Rightarrow> real \<Rightarrow> int \<Rightarrow> real \<times> int" where
  "baselineFor [] totalInterest' maxMonths = (totalInterest', maxMonths)"
| "baselineFor (debt # rest) totalInterest' maxMonths =
     (case baselineLoop debt (balance debt, 0, totalInterest') of
        (bal, months, totalInterest'') \<Rightarrow>
          baselineFor rest totalInterest'' (max maxMonths months))"

record Baseline =
  totalMonths_baseline :: int
  totalInterestPaid_baseline :: real

definition simulatePayoffBaseline :: "DebtForPayoff list \<Rightarrow> Baseline" where
  "simulatePayoffBaseline ds =
     (case baselineFor ds 0 0 of
        (totalInterest', maxMonths) \<Rightarrow>
          \<lparr>totalMonths_baseline = maxMonths,
           totalInterestPaid_baseline = round2 totalInterest'\<rparr>)"

text \<open>
  The balances that the inner loop of the baseline assigns to \<open>balance\<close>, month after
  month, for one debt: the same recursion as \<open>baselineLoop\<close>, recording each new balance.
\<close>

function baselineBalances :: "DebtForPayoff \<Rightarrow> real \<Rightarrow> int \<Rightarrow> real list" where
  "baselineBalances debt bal months =
     (if bal > 0.01 \<and> months < 600
      then (case baselineBody debt (bal, months, 0) of
              (bal', months', t) \<Rightarrow> bal' # baselineBalances debt bal' months')
      else [])"
  by pat_completeness auto
termination
  by (relation "measure (\<lambda>(debt, bal, months). nat (600 - months))")
     (auto simp: baselineBody_def Let_def)

declare baselineBalances.simps [simp del]


subsection \<open>The cascading month-by-month loop\<close>

text \<open>An element of \<open>remainingDebts\<close>: the debt, its running balance and its paid flag.\<close>

record RemainingDebt = DebtForPayoff +
  currentBalance :: real
  paid :: bool

definition trackDebt :: "DebtForPayoff \<Rightarrow> RemainingDebt" where
  "trackDebt d = DebtForPayoff.extend d \<lparr>currentBalance = balance d, paid = False\<rparr>"

text \<open>The predicate \<open>(d) => !d.paid && d.currentBalance > 0.01\<close> of \<open>some\<close> and \<open>find\<close>.\<close>

definition unpaid :: "RemainingDebt \<Rightarrow> bool" where
  "unpaid d = (\<not> paid d \<and> currentBalance d > 0.01)"

text \<open>
  The payment of one debt in the \<open>for\<close> loop (lines 147 to 158): the minimum payment,
  plus \<open>totalExtra\<close> when the debt's id is the id of the first unpaid element of the
  array as it stands at that moment, capped at balance plus interest.
\<close>

definition paymentFor :: "real \<Rightarrow> RemainingDebt list \<Rightarrow> RemainingDebt \<Rightarrow> real \<Rightarrow> real" where
  "paymentFor totalExtra remaining debt interest' =
     (let payment' = minPayment debt;
          priorityDebt = find unpaid remaining;
          payment'' = (if (case priorityDebt of None \<Rightarrow> False
                                              | Some p \<Rightarrow> id_debt debt = id_debt p)
                       then payment' + totalExtra else payment')
      in min payment'' (currentBalance debt + interest'))"

definition applyPayment :: "RemainingDebt \<Rightarrow> real \<Rightarrow> real \<Rightarrow> RemainingDebt" where
  "applyPayment debt payment' interest' =
     (let principal' = payment' - interest';
          newBalance = max 0 (currentBalance debt - principal')
      in if newBalance \<le> 0.01 then debt\<lparr>currentBalance := 0, paid := True\<rparr>
         else debt\<lparr>currentBalance := newBalance\<rparr>)"

text \<open>
  The \<open>for\<close> loop over \<open>remainingDebts\<close>. The array is mutated while it is traversed:
  \<open>visited\<close> holds the elements already passed, as the loop left them, and the second
  list the elements still to come; \<open>find\<close> searches the whole array. The last argument
  is \<open>totalInterestPaid\<close>.
\<close>

fun forDebts :: "real \<Rightarrow> RemainingDebt list \<Rightarrow> RemainingDebt list \<Rightarrow> real
    \<Rightarrow> RemainingDebt list \<times> real" where
  "forDebts totalExtra visited [] tip = (visited, tip)"
| "forDebts totalExtra visited (debt # rest) tip =
     (if paid debt \<or> currentBalance debt \<le> 0.01
      then forDebts totalExtra (visited @ [debt]) rest tip
      else
        let interest' = calculateMonthlyInterest (currentBalance debt) (apr debt);
            tip' = tip + interest';
            payment' = paymentFor totalExtra (visited @ debt # rest) debt interest'
        in forDebts totalExtra (visited @ [applyPayment debt payment' interest']) rest tip')"

record CascadeVars =
  remainingDebts :: "RemainingDebt list"
  currentMonth :: int
  totalInterestPaid_c :: real

definition cascadeBody :: "real \<Rightarrow> CascadeVars \<Rightarrow> CascadeVars" where
  "cascadeBody availableExtra s =
     (let freedPayments =
            foldl (\<lambda>sum' d. sum' + minPayment d) 0 (filter paid (remainingDebts s));
          totalExtra = availableExtra + freedPayments
      in case forDebts totalExtra [] (remainingDebts s) (totalInterestPaid_c s) of
           (remaining', tip') \<Rightarrow>
             \<lparr>remainingDebts = remaining',
              currentMonth = currentMonth s + 1,
              totalInterestPaid_c = tip'\<rparr>)"

function cascadeLoop :: "real \<Rightarrow> CascadeVars \<Rightarrow> CascadeVars" where
  "cascadeLoop availableExtra s =
     (if list_ex unpaid (remainingDebts s) \<and> currentMonth s < 600
      then cascadeLoop availableExtra (cascadeBody availableExtra s)
      else s)"
  by pat_completeness auto
termination
  by (relation "measure (\<lambda>(availableExtra, s). nat (600 - currentMonth s))")
     (auto simp: cascadeBody_def Let_def split: prod.splits)

declare cascadeLoop.simps [simp del]

text \<open>The number of simulated months: how often the body of the loop runs.\<close>

function cascadeIterations :: "real \<Rightarrow> CascadeVars \<Rightarrow> nat" where
  "cascadeIterations availableExtra s =
     (if list_ex unpaid (remainingDebts s) \<and> currentMonth s < 600
      then Suc (cascadeIterations availableExtra (cascadeBody availableExtra s))
      else 0)"
  by pat_completeness auto
termination
  by (relation "measure (\<lambda>(availableExtra, s). nat (600 - currentMonth s))")
     (auto simp: cascadeBody_def Let_def split: prod.splits)

declare cascadeIterations.simps [simp del]

text \<open>The state in which \<open>simulatePayoff\<close> enters the loop, given the sorted debts.\<close>

definition cascadeStart :: "DebtForPayoff list \<Rightarrow> CascadeVars" where
  "cascadeStart sortedDebts =
     \<lparr>remainingDebts = map trackDebt sortedDebts, currentMonth = 1, totalInterestPaid_c = 0\<rparr>"

subsection \<open>simulatePayoff and compareStrategies\<close>

text \<open>
  \<open>totalMinPayment\<close> (line 122) is computed and never read, so it is left out. After
  the guard on the empty list \<open>sortedDebts\<close> and \<open>results\<close> are not empty, so that
  \<open>sortedDebts[0]\<close> and \<open>Math.max(...)\<close> are defined.
\<close>

text \<open>The loop that fills \<open>results\<close> (lines 175 to 181), one isolated replay per debt.\<close>

definition payoffResults :: "DebtForPayoff list \<Rightarrow> real \<Rightarrow> PayoffDebtResult list" where
  "payoffResults sortedDebts extraMonthlyPayment =
     map (\<lambda>debt. simulateDebtPayoff debt
                    (minPayment debt +
                       (if id_debt (hd sortedDebts) = id_debt debt
                        then extraMonthlyPayment else 0)) 1)
         sortedDebts"

definition simulatePayoff :: "DebtForPayoff list \<Rightarrow> Strategy \<Rightarrow> real \<Rightarrow> PayoffSimulation" where
  "simulatePayoff ds strategy' extraMonthlyPayment =
     (if length ds = 0
      then \<lparr>strategy = strategy', extraPayment = extraMonthlyPayment, debts = [],
            totalMonths = 0, totalInterestPaid = 0, monthsSaved = 0, interestSaved = 0\<rparr>
      else
        let sortedDebts = (if strategy' = Avalanche then sortForAvalanche ds
                           else sortForSnowball ds);
            s = cascadeLoop extraMonthlyPayment (cascadeStart sortedDebts);
            results = payoffResults sortedDebts extraMonthlyPayment;
            baselineSimulation = simulatePayoffBaseline ds;
            lastPayoffMonth = Max (set (map payoffMonth results));
            totalMonths' = lastPayoffMonth
        in \<lparr>strategy = strategy',
            extraPayment = extraMonthlyPayment,
            debts = results,
            totalMonths = totalMonths',
            totalInterestPaid = round2 (totalInterestPaid_c s),
            monthsSaved = max 0 (totalMonths_baseline baselineSimulation - totalMonths'),
            interestSaved =
              max 0 (round2 (totalInterestPaid_baseline baselineSimulation
                             - totalInterestPaid_c s))\<rparr>)"




section \<open>Example inputs\<close>

text \<open>The three debts of the test suite (\<open>sampleDebts\<close> in payoff.test.ts).\<close>

definition creditCard :: DebtForPayoff where
  "creditCard = \<lparr>id_debt = ''1'', name = ''Credit Card'', balance = 50000, apr = 0.42,
                  minPayment = 5000\<rparr>"

definition personalLoan :: DebtForPayoff where
  "personalLoan = \<lparr>id_debt = ''2'', name = ''Personal Loan'', balance = 200000, apr = 0.14,
                    minPayment = 8000\<rparr>"

definition homeLoan :: DebtForPayoff where
  "homeLoan = \<lparr>id_debt = ''3'', name = ''Home Loan'', balance = 5000000, apr = 0.085,
                minPayment = 50000\<rparr>"

text \<open>An interest-free loan of 1000 repaid with 1 a month.\<close>

definition slowDebt :: DebtForPayoff where
  "slowDebt = \<lparr>id_debt = ''4'', name = ''Interest-free loan'', balance = 1000, apr = 0,
                minPayment = 1\<rparr>"

text \<open>Two debts at 12% a year, to be simulated with an extra payment of 1000 a month.\<close>

definition smallDebt :: DebtForPayoff where
  "smallDebt = \<lparr>id_debt = ''a'', name = ''Small'', balance = 100, apr = 0.12,
                 minPayment = 50\<rparr>"

definition largeDebt :: DebtForPayoff where
  "largeDebt = \<lparr>id_debt = ''b'', name = ''Large'', balance = 1050, apr = 0.12,
                 minPayment = 50\<rparr>"



text \<open>
  A household whose portfolio is exactly on target, with liquid assets of 1000 and
  monthly expenses of 100: once with no income at all, once with an income of 1000 and
  expenses of 1500.
\<close>

definition balancedTargets :: "(string \<times> real) list" where
  "balancedTargets = [(''equity'', 40), (''mf'', 30), (''crypto'', 5), (''gold'', 10),
                      (''realestate'', 10), (''other'', 5)]"

definition zeroIncomeData :: RulesData where
  "zeroIncomeData =
     \<lparr>income = 0, expenses = 100, emi = 0, liquidAssets_data = 1000, totalAssets_data = 1000,
      totalLiabilities_data = 0, ccBalance_data = 0, highestApr = 0,
      assetAllocation_data = map_of balancedTargets,
      emergencyFundMonthsTarget_settings = 6, emiToIncomeMaxPercent_settings = 40,
      ccUtilizationMaxPercent_settings = 30, allocationTargets_settings = balancedTargets\<rparr>"

definition overspendingData :: RulesData where
  "overspendingData = zeroIncomeData\<lparr>income := 1000, expenses := 1500\<rparr>"


section \<open>Properties of the cashflow calculations\<close>

text \<open>
  Claim C8. With both monthly expenses and monthly EMI equal to zero, \<open>calculateRunway\<close>
  returns positive infinity whatever the liquid assets are (finite, infinite or \<open>NaN\<close>),
  and with a total income of zero \<open>calculateSavingsRate\<close> returns \<open>0\<close> whatever the
  free cashflow is. Neither result is \<open>NaN\<close>; the functions contain no \<open>throw\<close> and are
  total.
\<close>

theorem C8_zero_divisor_sentinels:
  "calculateRunway anyLiquidAssets (Num 0) (Num 0) = PosInfinity \<and>
   calculateSavingsRate anyFreeCashflow (Num 0) = Num 0 \<and>
   calculateRunway anyLiquidAssets (Num 0) (Num 0) \<noteq> NaN \<and>
   calculateSavingsRate anyFreeCashflow (Num 0) \<noteq> NaN"
  by (simp add: calculateRunway_def calculateSavingsRate_def)


section \<open>Properties of the rules engine\<close>

subsection \<open>The alerts collected by the loop\<close>

lemma runRules_acc:
  "runRules rules ctx alerts = alerts @ List.map_filter (\<lambda>rule. rule ctx) rules"
  by (induction rules arbitrary: alerts) (auto simp: List.map_filter_simps split: option.splits)

lemma id_checkEmergencyFund:
  "checkEmergencyFund ctx = Some a \<Longrightarrow> id_alert a = ''emergency-fund''"
  by (auto simp: checkEmergencyFund_def Let_def split: if_splits)

lemma id_checkCreditCardUtilization:
  "checkCreditCardUtilization ctx = Some a \<Longrightarrow> id_alert a = ''cc-utilization''"
  by (auto simp: checkCreditCardUtilization_def Let_def split: if_splits)

lemma id_checkEmiToIncome:
  "checkEmiToIncome ctx = Some a \<Longrightarrow> id_alert a = ''emi-income-ratio''"
  by (auto simp: checkEmiToIncome_def Let_def split: if_splits)

lemma id_checkHighAprDebtWithInvestments:
  "checkHighAprDebtWithInvestments ctx = Some a \<Longrightarrow> id_alert a = ''high-apr-with-investments''"
  by (auto simp: checkHighAprDebtWithInvestments_def Let_def split: if_splits)

lemma id_checkNegativeCashflow:
  "checkNegativeCashflow ctx = Some a \<Longrightarrow> id_alert a = ''negative-cashflow''"
  by (auto simp: checkNegativeCashflow_def split: if_splits)

lemma id_checkSavingsRate:
  "checkSavingsRate ctx = Some a \<Longrightarrow> id_alert a = ''low-savings-rate''"
  by (auto simp: checkSavingsRate_def Let_def split: if_splits)

lemma id_checkAllocationDrift:
  "checkAllocationDrift ctx = Some a \<Longrightarrow> id_alert a = ''allocation-drift''"
  by (auto simp: checkAllocationDrift_def Let_def split: if_splits)

lemma id_checkNoIncome:
  "checkNoIncome ctx = Some a \<Longrightarrow> id_alert a = ''no-income''"
  by (auto simp: checkNoIncome_def split: if_splits)

lemma distinct_ruleIds: "distinct ruleIds"
  by (simp add: ruleIds_def)

text \<open>A rule adds nothing or one alert with its own id, so the ids collected form a
  subsequence of the catalogue's ids.\<close>

lemma subseq_rule:
  assumes "\<And>a. rule ctx = Some a \<Longrightarrow> id_alert a = i"
    and "subseq (map id_alert (List.map_filter (\<lambda>rule. rule ctx) rules)) ids"
  shows "subseq (map id_alert (List.map_filter (\<lambda>rule. rule ctx) (rule # rules))) (i # ids)"
  using assms by (cases "rule ctx") (auto simp: List.map_filter_simps)

lemma subseq_no_rule: "subseq (map id_alert (List.map_filter (\<lambda>rule. rule ctx) [])) []"
  by (simp add: List.map_filter_simps)

lemma collected_subseq: "subseq (map id_alert (runRules RULES ctx [])) ruleIds"
  unfolding runRules_acc RULES_def ruleIds_def append_Nil
  by (intro subseq_rule subseq_no_rule)
     (erule id_checkEmergencyFund id_checkCreditCardUtilization id_checkEmiToIncome
        id_checkHighAprDebtWithInvestments id_checkNegativeCashflow id_checkSavingsRate
        id_checkAllocationDrift id_checkNoIncome)+

lemma subseq_distinct: "subseq xs ys \<Longrightarrow> distinct ys \<Longrightarrow> distinct xs"
  using subseqs_distinctD[of xs ys] by (simp add: set_subseqs_eq)

lemma subseq_set: "subseq xs ys \<Longrightarrow> set xs \<subseteq> set ys"
  by (auto elim: list_emb_set)

lemma distinct_collected: "distinct (map id_alert (runRules RULES ctx []))"
  using collected_subseq distinct_ruleIds by (rule subseq_distinct)

subsection \<open>The sort by severity\<close>

lemma severityOrder_eq:
  "(severityOrder s = 0) = (s = High)"
  "(severityOrder s = 1) = (s = Medium)"
  "(severityOrder s = 2) = (s = Low)"
  by (cases s; simp)+

lemma sorted_same_severity:
  "sorted (map (\<lambda>a. severityOrder (severity a)) (filter (\<lambda>a. severity a = s) xs))"
  by (induction xs) auto

lemma sort_by_severity:
  "sort_key (\<lambda>a. severityOrder (severity a)) xs =
     filter (\<lambda>a. severity a = High) xs @ filter (\<lambda>a. severity a = Medium) xs @
     filter (\<lambda>a. severity a = Low) xs"
proof (rule properties_for_sort_key)
  let ?ys = "filter (\<lambda>a. severity a = High) xs @ filter (\<lambda>a. severity a = Medium) xs @
     filter (\<lambda>a. severity a = Low) xs"
  show "mset ?ys = mset xs"
  proof (induction xs)
    case Nil
    then show ?case by simp
  next
    case (Cons a xs)
    then show ?case by (cases "severity a") simp_all
  qed
  show "filter (\<lambda>x. severityOrder (severity k) = severityOrder (severity x)) ?ys =
        filter (\<lambda>x. severityOrder (severity k) = severityOrder (severity x)) xs" for k
    by (cases "severity k") (simp_all add: severityOrder_eq conj_commute)
  show "sorted (map (\<lambda>a. severityOrder (severity a)) ?ys)"
    by (auto simp: sorted_append sorted_same_severity)
qed

text \<open>
  Claim C5. The list returned by \<open>evaluateRules\<close> is sorted by severity, high before
  medium before low: it is the high alerts, then the medium alerts, then the low alerts
  of the list that the loop collected, each group in the order of collection, which is
  the order of the rules in the catalogue \<open>RULES\<close>. So no high alert comes after a medium
  or low one, and alerts of equal severity keep their catalogue order.
\<close>

theorem C5_alerts_sorted_by_severity:
  "sorted (map (\<lambda>a. severityOrder (severity a)) (evaluateRules ctx)) \<and>
   evaluateRules ctx =
     filter (\<lambda>a. severity a = High) (List.map_filter (\<lambda>rule. rule ctx) RULES) @
     filter (\<lambda>a. severity a = Medium) (List.map_filter (\<lambda>rule. rule ctx) RULES) @
     filter (\<lambda>a. severity a = Low) (List.map_filter (\<lambda>rule. rule ctx) RULES) \<and>
   filter (\<lambda>a. severity a = s) (evaluateRules ctx) =
     filter (\<lambda>a. severity a = s) (List.map_filter (\<lambda>rule. rule ctx) RULES)"
proof -
  let ?c = "List.map_filter (\<lambda>rule. rule ctx) RULES"
  have ev: "evaluateRules ctx = sort_key (\<lambda>a. severityOrder (severity a)) ?c"
    by (simp add: evaluateRules_def runRules_acc)
  have 1: "sorted (map (\<lambda>a. severityOrder (severity a)) (evaluateRules ctx))"
    by (simp add: ev)
  have 2: "evaluateRules ctx = filter (\<lambda>a. severity a = High) ?c @
      filter (\<lambda>a. severity a = Medium) ?c @ filter (\<lambda>a. severity a = Low) ?c"
    unfolding ev by (rule sort_by_severity)
  have 3: "filter (\<lambda>a. severity a = s) (evaluateRules ctx) = filter (\<lambda>a. severity a = s) ?c"
    by (subst 2, cases s) (simp_all add: conj_commute)
  from 1 2 3 show ?thesis by blast
qed

text \<open>
  Claim C10. \<open>evaluateRules\<close> returns at most eight alerts, every id is one of the eight
  ids of the catalogue, and no id occurs twice.
\<close>

theorem C10_alert_ids_bounded_distinct:
  "length (evaluateRules ctx) \<le> 8 \<and>
   set (map id_alert (evaluateRules ctx)) \<subseteq>
     {''emergency-fund'', ''cc-utilization'', ''emi-income-ratio'',
      ''high-apr-with-investments'', ''negative-cashflow'', ''low-savings-rate'',
      ''allocation-drift'', ''no-income''} \<and>
   distinct (map id_alert (evaluateRules ctx))"
proof -
  let ?c = "runRules RULES ctx []"
  have ev: "evaluateRules ctx = sort_key (\<lambda>a. severityOrder (severity a)) ?c"
    by (simp add: evaluateRules_def)
  have sub: "subseq (map id_alert ?c) ruleIds"
    by (rule collected_subseq)
  have "length (map id_alert ?c) \<le> length ruleIds"
    using sub by (rule list_emb_length)
  then have 1: "length (evaluateRules ctx) \<le> 8"
    by (simp add: ev ruleIds_def)
  have "set (map id_alert ?c) \<subseteq> set ruleIds"
    using sub by (rule subseq_set)
  then have 2: "set (map id_alert (evaluateRules ctx)) \<subseteq> set ruleIds"
    by (simp add: ev)
  have "mset (map id_alert (evaluateRules ctx)) = mset (map id_alert ?c)"
    by (simp add: ev)
  with distinct_collected[of ctx] have 3: "distinct (map id_alert (evaluateRules ctx))"
    by (metis mset_eq_imp_distinct_iff)
  from 1 2 3 show ?thesis by (simp add: ruleIds_def)
qed


subsection \<open>Negative cashflow and the savings rate\<close>

lemma filter_id_unique:
  "distinct (map id_alert xs) \<Longrightarrow> a \<in> set xs \<Longrightarrow>
   filter (\<lambda>x. id_alert x = id_alert a) xs = [a]"
proof (induction xs)
  case Nil
  then show ?case by simp
next
  case (Cons x xs)
  show ?case
  proof (cases "x = a")
    case True
    with Cons.prems have "id_alert a \<notin> id_alert ` set xs" by simp
    then have "\<forall>y\<in>set xs. id_alert y \<noteq> id_alert a" by (metis imageI)
    then have "filter (\<lambda>x. id_alert x = id_alert a) xs = []" by (simp add: filter_empty_conv)
    with True show ?thesis by simp
  next
    case False
    with Cons.prems have "a \<in> set xs" "id_alert x \<noteq> id_alert a" by auto
    with Cons show ?thesis by simp
  qed
qed

lemma collected_set:
  "set (runRules RULES ctx []) = {a. \<exists>rule \<in> set RULES. rule ctx = Some a}"
proof -
  have "set (List.map_filter f xs) = {a. \<exists>x \<in> set xs. f x = Some a}"
    for f :: "'x \<Rightarrow> 'y option" and xs
    by (induction xs) (auto simp: List.map_filter_simps split: option.splits)
  then show ?thesis by (simp add: runRules_acc)
qed

lemma set_evaluateRules: "set (evaluateRules ctx) = set (runRules RULES ctx [])"
  by (simp add: evaluateRules_def)

lemma distinct_evaluateRules: "distinct (map id_alert (evaluateRules ctx))"
proof -
  have "mset (map id_alert (evaluateRules ctx)) = mset (map id_alert (runRules RULES ctx []))"
    by (simp add: evaluateRules_def)
  with distinct_collected[of ctx] show ?thesis by (metis mset_eq_imp_distinct_iff)
qed

lemma low_savings_alert_source:
  assumes "a \<in> set (evaluateRules ctx)" "id_alert a = ''low-savings-rate''"
  shows "checkSavingsRate ctx = Some a"
proof -
  from assms(1) obtain rule where r: "rule \<in> set RULES" "rule ctx = Some a"
    unfolding set_evaluateRules collected_set by blast
  from r assms(2) show ?thesis
    by (auto simp: RULES_def dest: id_checkEmergencyFund id_checkCreditCardUtilization
        id_checkEmiToIncome id_checkHighAprDebtWithInvestments id_checkNegativeCashflow
        id_checkSavingsRate id_checkAllocationDrift id_checkNoIncome)
qed

text \<open>
  Claim C2, as amended. For every context with \<open>freeCashflow < 0\<close>, \<open>evaluateRules\<close>
  returns exactly one alert with id \<open>negative-cashflow\<close>, and its severity is high.
  The list contains no alert with id \<open>low-savings-rate\<close> whenever the context's
  \<open>savingsRate\<close> is negative (or at least 20): the savings rule is gated on the savings
  rate, not on the free cashflow. A context built by \<open>buildRulesContext\<close> from data with
  a positive income has a negative savings rate whenever its free cashflow is negative.
\<close>

theorem C2_negative_cashflow_alert:
  assumes "freeCashflow ctx < 0"
  shows "(\<exists>a. filter (\<lambda>x. id_alert x = ''negative-cashflow'') (evaluateRules ctx) = [a] \<and>
              severity a = High) \<and>
         (savingsRate ctx < 0 \<or> savingsRate ctx \<ge> 20 \<longrightarrow>
            ''low-savings-rate'' \<notin> set (map id_alert (evaluateRules ctx))) \<and>
         (income data > 0 \<and> freeCashflow (buildRulesContext data) < 0 \<longrightarrow>
            savingsRate (buildRulesContext data) < 0)"
proof -
  from assms obtain a where a: "checkNegativeCashflow ctx = Some a" "severity a = High"
      "id_alert a = ''negative-cashflow''"
    by (simp add: checkNegativeCashflow_def)
  then have "a \<in> set (evaluateRules ctx)"
    unfolding set_evaluateRules collected_set by (simp add: RULES_def)
  with distinct_evaluateRules
  have "filter (\<lambda>x. id_alert x = id_alert a) (evaluateRules ctx) = [a]"
    by (rule filter_id_unique)
  with a have 1: "\<exists>a. filter (\<lambda>x. id_alert x = ''negative-cashflow'') (evaluateRules ctx) = [a] \<and>
      severity a = High"
    by auto
  have 2: "''low-savings-rate'' \<notin> set (map id_alert (evaluateRules ctx))"
    if "savingsRate ctx < 0 \<or> savingsRate ctx \<ge> 20"
  proof
    assume "''low-savings-rate'' \<in> set (map id_alert (evaluateRules ctx))"
    then obtain b where "b \<in> set (evaluateRules ctx)" "id_alert b = ''low-savings-rate''"
      by auto
    then have "checkSavingsRate ctx = Some b" by (rule low_savings_alert_source)
    with that show False by (auto simp: checkSavingsRate_def split: if_splits)
  qed
  have 3: "savingsRate (buildRulesContext data) < 0"
    if "income data > 0" "freeCashflow (buildRulesContext data) < 0"
    using that by (simp add: buildRulesContext_def Let_def divide_neg_pos mult_neg_pos)
  from 1 2 3 show ?thesis by blast
qed

text \<open>
  The theorem at the household that earns 1000 and spends 1500: free cashflow and
  savings rate are negative, there is one \<open>negative-cashflow\<close> alert, of high severity,
  and no \<open>low-savings-rate\<close> alert.
\<close>

theorem C2_negative_cashflow_alert_witness:
  "freeCashflow (buildRulesContext overspendingData) < 0 \<and>
   savingsRate (buildRulesContext overspendingData) < 0 \<and>
   (\<exists>a. filter (\<lambda>x. id_alert x = ''negative-cashflow'')
          (evaluateRules (buildRulesContext overspendingData)) = [a] \<and> severity a = High) \<and>
   ''low-savings-rate'' \<notin> set (map id_alert (evaluateRules (buildRulesContext overspendingData)))"
proof -
  have h: "freeCashflow (buildRulesContext overspendingData) < 0"
    by (simp add: buildRulesContext_def overspendingData_def zeroIncomeData_def)
  have s: "savingsRate (buildRulesContext overspendingData) < 0"
    by (simp add: buildRulesContext_def overspendingData_def zeroIncomeData_def)
  from C2_negative_cashflow_alert[OF h, of overspendingData] s h show ?thesis by simp
qed

text \<open>
  The claim as stated fails at the household with no income and expenses of 100, as
  \<open>buildRulesContext\<close> builds its context: the free cashflow is \<open>-100\<close>, the savings rate
  is set to \<open>0\<close> because the income is not positive, and the alerts are
  \<open>negative-cashflow\<close>, \<open>low-savings-rate\<close> and \<open>no-income\<close>.
\<close>

theorem C2_low_savings_rate_counterexample:
  "freeCashflow (buildRulesContext zeroIncomeData) < 0 \<and>
   map id_alert (evaluateRules (buildRulesContext zeroIncomeData)) =
     [''negative-cashflow'', ''low-savings-rate'', ''no-income'']"
  by (simp add: buildRulesContext_def zeroIncomeData_def evaluateRules_def RULES_def
      checkEmergencyFund_def checkCreditCardUtilization_def checkEmiToIncome_def
      checkHighAprDebtWithInvestments_def checkNegativeCashflow_def checkSavingsRate_def
      checkAllocationDrift_def checkNoIncome_def balancedTargets_def js_ge_def Let_def)


section \<open>Properties of the payoff simulator\<close>

text \<open>
  Claim C9. On the empty debt list \<open>simulatePayoff\<close> returns, for every strategy and
  every extra payment, the simulation with no debt results, zero months and zero
  interest (and zero savings); this is the early return of the function, before any
  loop is entered.
\<close>

theorem C9_empty_debt_list:
  "simulatePayoff [] anyStrategy x =
     \<lparr>strategy = anyStrategy, extraPayment = x, debts = [], totalMonths = 0,
      totalInterestPaid = 0, monthsSaved = 0, interestSaved = 0\<rparr>"
  by (simp add: simulatePayoff_def)

subsection \<open>Unfolding the loops\<close>

lemma debtPayoffBody_month: "v_month (debtPayoffBody d p v) = v_month v + 1"
  by (simp add: debtPayoffBody_def Let_def)

lemma debtPayoffBody_length:
  "length (v_monthlyBreakdown (debtPayoffBody d p v)) = Suc (length (v_monthlyBreakdown v))"
  by (simp add: debtPayoffBody_def Let_def)

lemma debtPayoffLoop_step:
  "v_balance v > 0.01 \<Longrightarrow> v_month v - sm < 600 \<Longrightarrow>
   debtPayoffLoop d p sm v = debtPayoffLoop d p sm (debtPayoffBody d p v)"
  by (subst debtPayoffLoop.simps) simp

lemma debtPayoffLoop_stop:
  "\<not> (v_balance v > 0.01 \<and> v_month v - sm < 600) \<Longrightarrow> debtPayoffLoop d p sm v = v"
  by (subst debtPayoffLoop.simps) auto

lemma debtPayoffIterations_step:
  "v_balance v > 0.01 \<Longrightarrow> v_month v - sm < 600 \<Longrightarrow>
   debtPayoffIterations d p sm v = Suc (debtPayoffIterations d p sm (debtPayoffBody d p v))"
  by (subst debtPayoffIterations.simps) simp

lemma debtPayoffIterations_stop:
  "\<not> (v_balance v > 0.01 \<and> v_month v - sm < 600) \<Longrightarrow> debtPayoffIterations d p sm v = 0"
  by (subst debtPayoffIterations.simps) auto

lemma baselineBody_eq:
  "baselineBody d (bal, months, t) =
     (max 0 (bal - (min (minPayment d) (bal + bal * (apr d / 12)) - bal * (apr d / 12))),
      months + 1, t + bal * (apr d / 12))"
  by (simp add: baselineBody_def calculateMonthlyInterest_def Let_def)

lemma baselineLoop_step:
  "bal > 0.01 \<Longrightarrow> months < 600 \<Longrightarrow>
   baselineLoop d (bal, months, t) = baselineLoop d (baselineBody d (bal, months, t))"
  by (subst baselineLoop.simps) simp

lemma baselineLoop_stop:
  "\<not> (bal > 0.01 \<and> months < 600) \<Longrightarrow> baselineLoop d (bal, months, t) = (bal, months, t)"
  by (subst baselineLoop.simps) auto

lemma baselineIterations_step:
  "bal > 0.01 \<Longrightarrow> months < 600 \<Longrightarrow>
   baselineIterations d (bal, months, t) = Suc (baselineIterations d (baselineBody d (bal, months, t)))"
  by (subst baselineIterations.simps) simp

lemma baselineIterations_stop:
  "\<not> (bal > 0.01 \<and> months < 600) \<Longrightarrow> baselineIterations d (bal, months, t) = 0"
  by (subst baselineIterations.simps) auto

lemma baselineBalances_step:
  "bal > 0.01 \<Longrightarrow> months < 600 \<Longrightarrow>
   baselineBalances d bal months =
     fst (baselineBody d (bal, months, 0)) #
     baselineBalances d (fst (baselineBody d (bal, months, 0))) (months + 1)"
  by (subst baselineBalances.simps) (simp add: baselineBody_eq)

lemma baselineBalances_stop:
  "\<not> (bal > 0.01 \<and> months < 600) \<Longrightarrow> baselineBalances d bal months = []"
  by (subst baselineBalances.simps) auto

lemma cascadeBody_month: "currentMonth (cascadeBody x s) = currentMonth s + 1"
  by (simp add: cascadeBody_def Let_def split: prod.splits)

lemma cascadeLoop_step:
  "list_ex unpaid (remainingDebts s) \<Longrightarrow> currentMonth s < 600 \<Longrightarrow>
   cascadeLoop x s = cascadeLoop x (cascadeBody x s)"
  by (subst cascadeLoop.simps) simp

lemma cascadeLoop_stop:
  "\<not> (list_ex unpaid (remainingDebts s) \<and> currentMonth s < 600) \<Longrightarrow> cascadeLoop x s = s"
  by (subst cascadeLoop.simps) auto

lemma cascadeIterations_step:
  "list_ex unpaid (remainingDebts s) \<Longrightarrow> currentMonth s < 600 \<Longrightarrow>
   cascadeIterations x s = Suc (cascadeIterations x (cascadeBody x s))"
  by (subst cascadeIterations.simps) simp

lemma cascadeIterations_stop:
  "\<not> (list_ex unpaid (remainingDebts s) \<and> currentMonth s < 600) \<Longrightarrow> cascadeIterations x s = 0"
  by (subst cascadeIterations.simps) auto

subsection \<open>The month counters count the iterations and stay below the cap\<close>

lemma debtPayoffLoop_month_bounds:
  "v_month v \<le> v_month (debtPayoffLoop d p sm v) \<and>
   (v_month v - sm \<le> 600 \<longrightarrow> v_month (debtPayoffLoop d p sm v) - sm \<le> 600)"
proof (induction d p sm v rule: debtPayoffLoop.induct)
  case (1 debt monthlyPayment startMonth v)
  show ?case
  proof (cases "v_balance v > 0.01 \<and> v_month v - startMonth < 600")
    case True
    with 1 show ?thesis
      by (simp add: debtPayoffLoop_step debtPayoffBody_month)
  next
    case False
    then have "debtPayoffLoop debt monthlyPayment startMonth v = v"
      by (rule debtPayoffLoop_stop)
    then show ?thesis by simp
  qed
qed

lemma debtPayoffLoop_length:
  "int (length (v_monthlyBreakdown (debtPayoffLoop d p sm v))) =
   int (length (v_monthlyBreakdown v)) + (v_month (debtPayoffLoop d p sm v) - v_month v)"
proof (induction d p sm v rule: debtPayoffLoop.induct)
  case (1 debt monthlyPayment startMonth v)
  show ?case
  proof (cases "v_balance v > 0.01 \<and> v_month v - startMonth < 600")
    case True
    with 1 show ?thesis
      by (simp add: debtPayoffLoop_step debtPayoffBody_month debtPayoffBody_length)
  next
    case False
    then have "debtPayoffLoop debt monthlyPayment startMonth v = v"
      by (rule debtPayoffLoop_stop)
    then show ?thesis by simp
  qed
qed

lemma debtPayoffIterations_month:
  "int (debtPayoffIterations d p sm v) = v_month (debtPayoffLoop d p sm v) - v_month v"
proof (induction d p sm v rule: debtPayoffLoop.induct)
  case (1 debt monthlyPayment startMonth v)
  show ?case
  proof (cases "v_balance v > 0.01 \<and> v_month v - startMonth < 600")
    case True
    with 1 show ?thesis
      by (simp add: debtPayoffLoop_step debtPayoffIterations_step debtPayoffBody_month)
  next
    case False
    then have "debtPayoffLoop debt monthlyPayment startMonth v = v"
      and "debtPayoffIterations debt monthlyPayment startMonth v = 0"
      by (rule debtPayoffLoop_stop, rule debtPayoffIterations_stop)
    then show ?thesis by simp
  qed
qed

lemma payoffMonth_bounds:
  "0 \<le> payoffMonth (simulateDebtPayoff d p 1) \<and> payoffMonth (simulateDebtPayoff d p 1) \<le> 600"
  using debtPayoffLoop_month_bounds[of "debtPayoffStart d 1" d p 1]
  by (simp add: simulateDebtPayoff_def debtPayoffStart_def Let_def)

lemma baselineLoop_months:
  "months \<le> fst (snd (baselineLoop d (bal, months, t))) \<and>
   (months \<le> 600 \<longrightarrow> fst (snd (baselineLoop d (bal, months, t))) \<le> 600)"
proof (induction d "(bal, months, t)" arbitrary: bal months t rule: baselineLoop.induct)
  case (1 debt bal months t)
  show ?case
  proof (cases "bal > 0.01 \<and> months < 600")
    case True
    from 1[OF True baselineBody_eq] True show ?thesis
      by (simp add: baselineLoop_step baselineBody_eq)
  next
    case False
    then have "baselineLoop debt (bal, months, t) = (bal, months, t)"
      by (rule baselineLoop_stop)
    then show ?thesis by simp
  qed
qed

lemma baselineIterations_months:
  "int (baselineIterations d (bal, months, t)) = fst (snd (baselineLoop d (bal, months, t))) - months"
proof (induction d "(bal, months, t)" arbitrary: bal months t rule: baselineLoop.induct)
  case (1 debt bal months t)
  show ?case
  proof (cases "bal > 0.01 \<and> months < 600")
    case True
    from 1[OF True baselineBody_eq] True show ?thesis
      by (simp add: baselineLoop_step baselineIterations_step baselineBody_eq)
  next
    case False
    then have "baselineLoop debt (bal, months, t) = (bal, months, t)"
      and "baselineIterations debt (bal, months, t) = 0"
      by (rule baselineLoop_stop, rule baselineIterations_stop)
    then show ?thesis by simp
  qed
qed

lemma cascadeLoop_month:
  "currentMonth s \<le> currentMonth (cascadeLoop x s) \<and>
   (currentMonth s \<le> 600 \<longrightarrow> currentMonth (cascadeLoop x s) \<le> 600)"
proof (induction x s rule: cascadeLoop.induct)
  case (1 x s)
  show ?case
  proof (cases "list_ex unpaid (remainingDebts s) \<and> currentMonth s < 600")
    case True
    with 1 show ?thesis by (simp add: cascadeLoop_step cascadeBody_month)
  next
    case False
    then have "cascadeLoop x s = s" by (rule cascadeLoop_stop)
    then show ?thesis by simp
  qed
qed

lemma cascadeIterations_month:
  "int (cascadeIterations x s) = currentMonth (cascadeLoop x s) - currentMonth s"
proof (induction x s rule: cascadeLoop.induct)
  case (1 x s)
  show ?case
  proof (cases "list_ex unpaid (remainingDebts s) \<and> currentMonth s < 600")
    case True
    with 1 show ?thesis
      by (simp add: cascadeLoop_step cascadeIterations_step cascadeBody_month)
  next
    case False
    then have "cascadeLoop x s = s" and "cascadeIterations x s = 0"
      by (rule cascadeLoop_stop, rule cascadeIterations_stop)
    then show ?thesis by simp
  qed
qed

text \<open>
  Claim C7. Every loop of the simulator is a total function: its recursion was accepted
  with the measure \<open>600 - month counter\<close>, so \<open>simulatePayoff\<close> returns on every
  debt list, strategy and extra payment. The body of the cascading month loop runs at
  most 600 times (in fact at most 599 times, its counter starting at 1 and the loop
  stopping at 600), the body of each isolated per-debt replay at most 600 times (one row
  of the monthly breakdown per run), and the body of each per-debt baseline loop at most
  600 times.
\<close>

theorem C7_loops_bounded_by_cap:
  "cascadeIterations x (cascadeStart sortedDebts) \<le> 600 \<and>
   debtPayoffIterations d p startMonth (debtPayoffStart d startMonth) \<le> 600 \<and>
   baselineIterations d (balance d, 0, t) \<le> 600 \<and>
   length (monthlyBreakdown (simulateDebtPayoff d p startMonth)) =
     debtPayoffIterations d p startMonth (debtPayoffStart d startMonth) \<and>
   int (cascadeIterations x (cascadeStart sortedDebts)) =
     currentMonth (cascadeLoop x (cascadeStart sortedDebts)) - 1 \<and>
   int (baselineIterations d (balance d, 0, t)) = fst (snd (baselineLoop d (balance d, 0, t)))"
proof -
  have "int (cascadeIterations x (cascadeStart sortedDebts)) \<le> 599"
    using cascadeLoop_month[of "cascadeStart sortedDebts" x]
    by (simp add: cascadeIterations_month cascadeStart_def)
  then have 1: "cascadeIterations x (cascadeStart sortedDebts) \<le> 600" by linarith
  have "int (debtPayoffIterations d p startMonth (debtPayoffStart d startMonth)) \<le> 600"
    using debtPayoffLoop_month_bounds[of "debtPayoffStart d startMonth" d p startMonth]
    by (simp add: debtPayoffIterations_month debtPayoffStart_def)
  then have 2: "debtPayoffIterations d p startMonth (debtPayoffStart d startMonth) \<le> 600"
    by linarith
  have "int (baselineIterations d (balance d, 0, t)) \<le> 600"
    using baselineLoop_months[of 0 d "balance d" t]
    by (simp add: baselineIterations_months)
  then have 3: "baselineIterations d (balance d, 0, t) \<le> 600" by linarith
  have "int (length (monthlyBreakdown (simulateDebtPayoff d p startMonth))) =
        int (debtPayoffIterations d p startMonth (debtPayoffStart d startMonth))"
    using debtPayoffLoop_length[of d p startMonth "debtPayoffStart d startMonth"]
    by (simp add: simulateDebtPayoff_def debtPayoffIterations_month debtPayoffStart_def Let_def)
  then have 4: "length (monthlyBreakdown (simulateDebtPayoff d p startMonth)) =
        debtPayoffIterations d p startMonth (debtPayoffStart d startMonth)"
    by linarith
  have 5: "int (cascadeIterations x (cascadeStart sortedDebts)) =
     currentMonth (cascadeLoop x (cascadeStart sortedDebts)) - 1"
    by (simp add: cascadeIterations_month cascadeStart_def)
  have 6: "int (baselineIterations d (balance d, 0, t)) = fst (snd (baselineLoop d (balance d, 0, t)))"
    by (simp add: baselineIterations_months)
  from 1 2 3 4 5 6 show ?thesis by blast
qed


subsection \<open>Strategy ordering\<close>

lemma non_increasing_apr: "sorted_wrt (\<lambda>x y. x \<ge> y) (map apr (sortForAvalanche ds))"
proof -
  have "sorted (map (\<lambda>d. - apr d) (sortForAvalanche ds))"
    by (simp add: sortForAvalanche_def)
  then show ?thesis by (simp add: sorted_wrt_map)
qed

text \<open>
  Claim C6. For every debt list, \<open>sortForAvalanche\<close> returns a permutation of it with
  non-increasing \<open>apr\<close>, \<open>sortForSnowball\<close> a permutation with non-decreasing
  \<open>balance\<close>, and in both the debts with one and the same key \<open>k\<close> keep their input
  order. Neither function mutates its input: called on the array at a valid address
  \<open>r\<close> of a store, each returns a new address, leaves every array of the old store
  (the input among them) as it was, and the array at the new address is the sorted list.
\<close>

theorem C6_strategy_sorts_stable_and_pure:
  assumes "r < length st"
  shows "(case sortForAvalanche_store st r of (st', r') \<Rightarrow>
            r' \<noteq> r \<and> take (length st) st' = st \<and> st' ! r = st ! r \<and> r' < length st' \<and>
            st' ! r' = sortForAvalanche (st ! r)) \<and>
         (case sortForSnowball_store st r of (st', r') \<Rightarrow>
            r' \<noteq> r \<and> take (length st) st' = st \<and> st' ! r = st ! r \<and> r' < length st' \<and>
            st' ! r' = sortForSnowball (st ! r)) \<and>
         mset (sortForAvalanche ds) = mset ds \<and>
         sorted_wrt (\<lambda>x y. x \<ge> y) (map apr (sortForAvalanche ds)) \<and>
         filter (\<lambda>d. apr d = k) (sortForAvalanche ds) = filter (\<lambda>d. apr d = k) ds \<and>
         mset (sortForSnowball ds) = mset ds \<and>
         sorted (map balance (sortForSnowball ds)) \<and>
         filter (\<lambda>d. balance d = k) (sortForSnowball ds) = filter (\<lambda>d. balance d = k) ds"
proof -
  have a: "case sortForAvalanche_store st r of (st', r') \<Rightarrow>
            r' \<noteq> r \<and> take (length st) st' = st \<and> st' ! r = st ! r \<and> r' < length st' \<and>
            st' ! r' = sortForAvalanche (st ! r)"
    using assms
    by (simp add: sortForAvalanche_store_def spread_def sort_in_place_def sortForAvalanche_def
        nth_append)
  have b: "case sortForSnowball_store st r of (st', r') \<Rightarrow>
            r' \<noteq> r \<and> take (length st) st' = st \<and> st' ! r = st ! r \<and> r' < length st' \<and>
            st' ! r' = sortForSnowball (st ! r)"
    using assms
    by (simp add: sortForSnowball_store_def spread_def sort_in_place_def sortForSnowball_def
        nth_append)
  have c: "filter (\<lambda>d. apr d = k) (sortForAvalanche ds) = filter (\<lambda>d. apr d = k) ds"
    using sort_key_stable[of "\<lambda>d. - apr d" "- k" ds] by (simp add: sortForAvalanche_def)
  have d: "filter (\<lambda>d. balance d = k) (sortForSnowball ds) = filter (\<lambda>d. balance d = k) ds"
    using sort_key_stable[of "\<lambda>d. balance d" "k" ds] by (simp add: sortForSnowball_def)
  have e: "sorted (map balance (sortForSnowball ds))"
    by (simp add: sortForSnowball_def)
  have f: "mset (sortForAvalanche ds) = mset ds" "mset (sortForSnowball ds) = mset ds"
    by (simp_all add: sortForAvalanche_def sortForSnowball_def)
  from a b c d e f non_increasing_apr[of ds] show ?thesis by blast
qed

text \<open>
  The theorem on a store that holds the three debts of the test suite in the order home
  loan, credit card, personal loan: the avalanche order is written to a new array, credit
  card (42%), personal loan (14%), home loan (8.5%), and the input array is unchanged.
\<close>

theorem C6_strategy_sorts_stable_and_pure_witness:
  "(0::nat) < length [[homeLoan, creditCard, personalLoan]] \<and>
   (case sortForAvalanche_store [[homeLoan, creditCard, personalLoan]] 0 of (st', r') \<Rightarrow>
      r' \<noteq> 0 \<and> st' ! 0 = [homeLoan, creditCard, personalLoan] \<and>
      st' ! r' = [creditCard, personalLoan, homeLoan])"
proof -
  let ?st = "[[homeLoan, creditCard, personalLoan]]"
  have h: "(0::nat) < length ?st" by simp
  have av: "sortForAvalanche [homeLoan, creditCard, personalLoan] =
      [creditCard, personalLoan, homeLoan]"
    by (simp add: sortForAvalanche_def homeLoan_def creditCard_def personalLoan_def)
  have "case sortForAvalanche_store ?st 0 of (st', r') \<Rightarrow>
          r' \<noteq> 0 \<and> take (length ?st) st' = ?st \<and> st' ! 0 = ?st ! 0 \<and> r' < length st' \<and>
          st' ! r' = sortForAvalanche (?st ! 0)"
    using C6_strategy_sorts_stable_and_pure[OF h, of "[]" 0] by (rule conjunct1)
  with av h show ?thesis by (simp add: split_beta)
qed

subsection \<open>Rounding to a double\<close>



lemma binade_upper:
  assumes "0 < y"
  shows "y < power_int 2 (binade y + 1)"
proof (cases "y \<ge> 1")
  case True
  define n where "n = nat \<lfloor>y\<rfloor>"
  from True have n: "n > 0" by (simp add: n_def)
  then have fl: "floorlog 2 n \<ge> 1" by (simp add: floorlog_def)
  have "n < 2 ^ floorlog 2 n" using floorlog_bounds[of n 2] n by simp
  then have "n + 1 \<le> 2 ^ floorlog 2 n" by arith
  then have "real (n + 1) \<le> real (2 ^ floorlog 2 n)" by (rule of_nat_mono)
  then have le: "real n + 1 \<le> 2 ^ floorlog 2 n" by simp
  have "real n = of_int \<lfloor>y\<rfloor>" using True by (simp add: n_def)
  then have "y < real n + 1" by linarith
  with le have "y < 2 ^ floorlog 2 n" by linarith
  moreover have "binade y + 1 = int (floorlog 2 n)"
    using True by (simp add: binade_def n_def)
  ultimately show ?thesis by simp
next
  case False
  define m where "m = nat \<lceil>1 / y\<rceil>"
  define k where "k = floorlog 2 (m - 1)"
  from False assms have "1 / y > 1" by simp
  then have c: "\<lceil>1 / y\<rceil> \<ge> 2" by linarith
  then have m: "m - 1 > 0" by (simp add: m_def)
  then have k: "k \<ge> 1" by (simp add: k_def floorlog_def)
  have "2 ^ (k - 1) \<le> m - 1" using floorlog_bounds[of "m - 1" 2] m by (simp add: k_def)
  then have "real (2 ^ (k - 1)) \<le> real (m - 1)" by (rule of_nat_mono)
  then have le: "2 ^ (k - 1) \<le> real m - 1" using m by (simp add: of_nat_diff)
  have "real m = of_int \<lceil>1 / y\<rceil>" using c by (simp add: m_def)
  then have "real m - 1 < 1 / y" by linarith
  with le have lt: "2 ^ (k - 1) < 1 / y" by linarith
  have "y < 1 / 2 ^ (k - 1)"
  proof -
    have "2 ^ (k - 1) * y < 1" using lt assms by (simp add: less_divide_eq)
    then show ?thesis by (simp add: less_divide_eq mult.commute)
  qed
  moreover have "binade y + 1 = - int (k - 1)"
    using False k by (simp add: binade_def k_def m_def)
  ultimately show ?thesis by (simp only: power_int_minus_divide power_int_of_nat)
qed


subsection \<open>Comparison of the strategies\<close>



















subsection \<open>Minimum payments in isolation\<close>

lemma min_payment_month_decreases:
  assumes "0 \<le> apr d" "bal * apr d < minPayment d * 12" "bal > 0.01"
  shows "fst (baselineBody d (bal, months, t)) < bal"
    and "fst (baselineBody d (bal, months, t)) * apr d < minPayment d * 12"
proof -
  let ?i = "bal * (apr d / 12)"
  let ?b = "fst (baselineBody d (bal, months, t))"
  have i: "?i < minPayment d" using assms(2) by simp
  have b: "?b = max 0 (bal - (min (minPayment d) (bal + ?i) - ?i))"
    by (simp add: baselineBody_eq)
  from i assms(3) show lt: "?b < bal" unfolding b by (simp add: min_def max_def)
  have "?b * apr d \<le> bal * apr d"
    using lt assms(1) by (intro mult_right_mono) simp_all
  with assms(2) show "?b * apr d < minPayment d * 12" by simp
qed

lemma baselineBalances_decreasing:
  "0 \<le> apr d \<Longrightarrow> bal * apr d < minPayment d * 12 \<Longrightarrow>
   sorted_wrt (\<lambda>x y. x > y) (bal # baselineBalances d bal months)"
proof (induction d bal months rule: baselineBalances.induct)
  case (1 debt bal months)
  show ?case
  proof (cases "bal > 0.01 \<and> months < 600")
    case True
    let ?b = "fst (baselineBody debt (bal, months, 0))"
    have lt: "?b < bal" and inv: "?b * apr debt < minPayment debt * 12"
      using min_payment_month_decreases[of debt bal months 0] 1(2,3) True by simp_all
    have unfold: "baselineBalances debt bal months = ?b # baselineBalances debt ?b (months + 1)"
      using True by (simp add: baselineBalances_step)
    have "baselineBody debt (bal, months, 0) =
            (?b, months + 1, snd (snd (baselineBody debt (bal, months, 0))))"
      by (simp add: baselineBody_eq)
    from 1(1)[OF True this[symmetric] refl 1(2) inv]
    have "sorted_wrt (\<lambda>x y. x > y) (?b # baselineBalances debt ?b (months + 1))" .
    with lt show ?thesis
      unfolding unfold by (subst sorted_wrt2) (auto intro: transpI)
  next
    case False
    then have "baselineBalances debt bal months = []" by (rule baselineBalances_stop)
    then show ?thesis by simp
  qed
qed

text \<open>The recorded balances are those of the baseline loop, one per run of its body.\<close>

lemma baselineBalances_loop:
  "fst (baselineLoop d (bal, months, t)) = last (bal # baselineBalances d bal months) \<and>
   baselineIterations d (bal, months, t) = length (baselineBalances d bal months)"
proof (induction d "(bal, months, t)" arbitrary: bal months t rule: baselineLoop.induct)
  case (1 debt bal months t)
  show ?case
  proof (cases "bal > 0.01 \<and> months < 600")
    case True
    let ?b = "fst (baselineBody debt (bal, months, 0))"
    have body: "baselineBody debt (bal, months, t) = (?b, months + 1, t + bal * (apr debt / 12))"
      by (simp add: baselineBody_eq)
    from 1[OF True body] True show ?thesis
      by (simp add: baselineLoop_step baselineBalances_step baselineIterations_step body)
  next
    case False
    then have "baselineLoop debt (bal, months, t) = (bal, months, t)"
      and "baselineIterations debt (bal, months, t) = 0"
      and "baselineBalances debt bal months = []"
      by (rule baselineLoop_stop, rule baselineIterations_stop, rule baselineBalances_stop)
    then show ?thesis by simp
  qed
qed

text \<open>The baseline loop ends with the debt paid off or at the cap.\<close>

lemma baselineLoop_exit:
  "months \<le> 600 \<Longrightarrow>
   fst (baselineLoop d (bal, months, t)) \<le> 0.01 \<or> fst (snd (baselineLoop d (bal, months, t))) = 600"
proof (induction d "(bal, months, t)" arbitrary: bal months t rule: baselineLoop.induct)
  case (1 debt bal months t)
  show ?case
  proof (cases "bal > 0.01 \<and> months < 600")
    case True
    from 1(1)[OF True baselineBody_eq] True show ?thesis
      by (simp add: baselineLoop_step baselineBody_eq)
  next
    case False
    then have "baselineLoop debt (bal, months, t) = (bal, months, t)"
      by (rule baselineLoop_stop)
    with False 1(2) show ?thesis by auto
  qed
qed

lemma round2_mono: "x \<le> y \<Longrightarrow> round2 x \<le> round2 y"
  by (simp add: round2_def divide_right_mono floor_mono)

lemma debtPayoffBody_balance:
  "v_balance (debtPayoffBody d (minPayment d) v) = fst (baselineBody d (v_balance v, months, t))"
  by (simp add: debtPayoffBody_def baselineBody_eq calculateMonthlyInterest_def Let_def)

lemma debtPayoffBody_rows:
  "map balance_pm (v_monthlyBreakdown (debtPayoffBody d p v)) =
   map balance_pm (v_monthlyBreakdown v) @ [round2 (v_balance (debtPayoffBody d p v))]"
  by (simp add: debtPayoffBody_def Let_def)

text \<open>
  The isolated replay of \<open>simulateDebtPayoff\<close> with the minimum payment passes through
  the balances of the baseline loop; its monthly breakdown shows them rounded.
\<close>

lemma replay_min_payment_balances:
  "p = minPayment d \<Longrightarrow>
   map balance_pm (v_monthlyBreakdown (debtPayoffLoop d p sm v)) =
   map balance_pm (v_monthlyBreakdown v) @
   map round2 (baselineBalances d (v_balance v) (v_month v - sm))"
proof (induction d p sm v rule: debtPayoffLoop.induct)
  case (1 debt monthlyPayment startMonth v)
  show ?case
  proof (cases "v_balance v > 0.01 \<and> v_month v - startMonth < 600")
    case True
    let ?v' = "debtPayoffBody debt monthlyPayment v"
    have bal: "v_balance ?v' = fst (baselineBody debt (v_balance v, v_month v - startMonth, 0))"
      using 1(2) by (simp add: debtPayoffBody_balance)
    have m: "v_month ?v' - startMonth = v_month v - startMonth + 1"
      by (simp add: debtPayoffBody_month)
    from 1(1)[OF True 1(2)] True show ?thesis
      by (simp add: debtPayoffLoop_step baselineBalances_step debtPayoffBody_rows m bal)
  next
    case False
    then have "debtPayoffLoop debt monthlyPayment startMonth v = v"
      and "baselineBalances debt (v_balance v) (v_month v - startMonth) = []"
      by (rule debtPayoffLoop_stop, rule baselineBalances_stop)
    then show ?thesis by simp
  qed
qed

lemma replay_breakdown_balances:
  "map balance_pm (monthlyBreakdown (simulateDebtPayoff d (minPayment d) 1)) =
   map round2 (baselineBalances d (balance d) 0)"
  using replay_min_payment_balances[of "minPayment d" d 1 "debtPayoffStart d 1"]
  by (simp add: simulateDebtPayoff_def Let_def debtPayoffStart_def)

lemma sorted_wrt_round2:
  "sorted_wrt (\<lambda>b b'. b > b') xs \<Longrightarrow> sorted_wrt (\<lambda>b b'. b \<ge> b') (map round2 xs)"
  by (induction xs) (auto intro: round2_mono less_imp_le)

subsection \<open>Total months\<close>

lemma Max_payoffMonth:
  assumes "rs \<noteq> []" "\<And>r. r \<in> set rs \<Longrightarrow> 0 \<le> payoffMonth r \<and> payoffMonth r \<le> 600"
  shows "0 \<le> Max (set (map payoffMonth rs)) \<and> Max (set (map payoffMonth rs)) \<le> 600"
proof -
  have "Max (set (map payoffMonth rs)) \<in> set (map payoffMonth rs)"
    using assms(1) by (intro Max_in) simp_all
  then obtain r where "r \<in> set rs" "Max (set (map payoffMonth rs)) = payoffMonth r"
    by auto
  with assms(2) show ?thesis by simp
qed

lemma payoffResults_bounds:
  "r \<in> set (payoffResults sortedDebts x) \<Longrightarrow> 0 \<le> payoffMonth r \<and> payoffMonth r \<le> 600"
  using payoffMonth_bounds by (auto simp: payoffResults_def)

lemma totalMonths_eq:
  "ds \<noteq> [] \<Longrightarrow>
   totalMonths (simulatePayoff ds s x) =
     Max (set (map payoffMonth
       (payoffResults (if s = Avalanche then sortForAvalanche ds else sortForSnowball ds) x)))"
  by (simp only: simulatePayoff_def Let_def length_0_conv if_False PayoffSimulation.select_convs)

lemma totalMonths_bounds:
  assumes "ds \<noteq> []"
  shows "0 \<le> totalMonths (simulatePayoff ds s x) \<and> totalMonths (simulatePayoff ds s x) \<le> 600"
proof -
  let ?sorted = "if s = Avalanche then sortForAvalanche ds else sortForSnowball ds"
  have "length (payoffResults ?sorted x) = length ds"
    by (simp add: payoffResults_def sortForAvalanche_def sortForSnowball_def)
  with assms have ne: "payoffResults ?sorted x \<noteq> []" by (metis length_0_conv)
  show ?thesis
    unfolding totalMonths_eq[OF assms] using ne payoffResults_bounds by (rule Max_payoffMonth)
qed

subsection \<open>An interest-free debt that the cap cuts off\<close>

lemma zero_apr_baseline_capped:
  "apr d = 0 \<Longrightarrow> minPayment d > 0 \<Longrightarrow> months \<le> 600 \<Longrightarrow>
   bal > 0.01 + real_of_int (600 - months) * minPayment d \<Longrightarrow>
   baselineLoop d (bal, months, t) = (bal - real_of_int (600 - months) * minPayment d, 600, t)"
proof (induction d "(bal, months, t)" arbitrary: bal months t rule: baselineLoop.induct)
  case (1 debt bal months t)
  show ?case
  proof (cases "months < 600")
    case True
    define k where "k = real_of_int (600 - (months + 1)) * minPayment debt"
    have split: "real_of_int (600 - months) * minPayment debt = minPayment debt + k"
      by (simp add: k_def algebra_simps)
    have "0 \<le> real_of_int (600 - (months + 1))" using True by simp
    then have k0: "0 \<le> k" unfolding k_def using 1(3) by (intro mult_nonneg_nonneg) simp_all
    have five: "bal > 0.01 + (minPayment debt + k)"
      using 1(5) by (simp only: split)
    have big: "bal > 0.01" "bal > minPayment debt" "bal - minPayment debt > 0.01 + k"
      using five 1(3) k0 by auto
    have body: "baselineBody debt (bal, months, t) = (bal - minPayment debt, months + 1, t)"
      using big 1(2) by (simp add: baselineBody_eq min_def max_def)
    have "baselineLoop debt (bal - minPayment debt, months + 1, t) =
          (bal - minPayment debt - k, 600, t)"
      unfolding k_def
    proof (rule 1(1)[OF _ body 1(2,3)])
      show "1 / 10\<^sup>2 < bal \<and> months < 600" using big True by simp
      show "months + 1 \<le> 600" using True by simp
      show "1 / 10\<^sup>2 + real_of_int (600 - (months + 1)) * minPayment debt < bal - minPayment debt"
        using big(3) by (simp add: k_def)
    qed
    moreover have "baselineLoop debt (bal, months, t) =
        baselineLoop debt (bal - minPayment debt, months + 1, t)"
      using big(1) True by (simp add: baselineLoop_step body)
    ultimately show ?thesis unfolding split by (simp add: algebra_simps)
  next
    case False
    with 1(4) have m: "months = 600" by simp
    then have "baselineLoop debt (bal, months, t) = (bal, months, t)"
      by (intro baselineLoop_stop) simp
    with m show ?thesis by simp
  qed
qed

lemma zero_apr_replay_capped:
  "apr d = 0 \<Longrightarrow> p > 0 \<Longrightarrow> v_month v \<le> 601 \<Longrightarrow>
   v_balance v > 0.01 + real_of_int (601 - v_month v) * p \<Longrightarrow>
   v_month (debtPayoffLoop d p 1 v) = 601"
proof (induction d p "1::int" v rule: debtPayoffLoop.induct)
  case (1 debt p v)
  show ?case
  proof (cases "v_month v - 1 < 600")
    case True
    define k where "k = real_of_int (601 - (v_month v + 1)) * p"
    have split: "real_of_int (601 - v_month v) * p = p + k"
      by (simp add: k_def algebra_simps)
    have "0 \<le> real_of_int (601 - (v_month v + 1))" using True by simp
    then have k0: "0 \<le> k" unfolding k_def using 1(3) by (intro mult_nonneg_nonneg) simp_all
    have five: "v_balance v > 0.01 + (p + k)"
      using 1(5) by (simp only: split)
    have big: "v_balance v > 0.01" "v_balance v > p" "v_balance v - p > 0.01 + k"
      using five 1(3) k0 by auto
    have body: "v_balance (debtPayoffBody debt p v) = v_balance v - p"
      "v_month (debtPayoffBody debt p v) = v_month v + 1"
      using big 1(2) by (simp_all add: debtPayoffBody_def calculateMonthlyInterest_def Let_def min_def max_def)
    have "v_month (debtPayoffLoop debt p 1 (debtPayoffBody debt p v)) = 601"
    proof (rule 1(1)[OF _ 1(2,3)])
      show "1 / 10\<^sup>2 < v_balance v \<and> v_month v - 1 < 600" using big True by simp
      show "v_month (debtPayoffBody debt p v) \<le> 601" using True body by simp
      show "1 / 10\<^sup>2 + real_of_int (601 - v_month (debtPayoffBody debt p v)) * p
            < v_balance (debtPayoffBody debt p v)"
        using big(3) by (simp add: k_def body)
    qed
    then show ?thesis using big(1) True by (simp add: debtPayoffLoop_step)
  next
    case False
    with 1(4) have m: "v_month v = 601" by simp
    then have "debtPayoffLoop debt p 1 v = v"
      by (intro debtPayoffLoop_stop) simp
    with m show ?thesis by simp
  qed
qed

lemma slowDebt_payoffMonth: "payoffMonth (simulateDebtPayoff slowDebt 1 1) = 600"
proof -
  have "v_month (debtPayoffLoop slowDebt 1 1 (debtPayoffStart slowDebt 1)) = 601"
    by (rule zero_apr_replay_capped) (simp_all add: slowDebt_def debtPayoffStart_def)
  then show ?thesis by (simp add: simulateDebtPayoff_def Let_def)
qed

lemma slowDebt_baseline: "baselineLoop slowDebt (balance slowDebt, 0, 0) = (400, 600, 0)"
  using zero_apr_baseline_capped[of slowDebt 0 "balance slowDebt" 0]
  by (simp add: slowDebt_def)

text \<open>
  The claim as stated fails at the interest-free loan of 1000 repaid with 1 a month:
  the minimum payment exceeds the interest, which is zero, yet the replay stops at the
  cap with \<open>totalMonths = 600\<close>, and the baseline loop leaves a balance of 400 after its
  600 months.
\<close>

theorem C3_cap_reached_counterexample:
  "[slowDebt] \<noteq> [] \<and>
   minPayment slowDebt * 12 > balance slowDebt * apr slowDebt \<and>
   totalMonths (simulatePayoff [slowDebt] Avalanche 0) = 600 \<and>
   \<not> totalMonths (simulatePayoff [slowDebt] Avalanche 0) < 600 \<and>
   baselineLoop slowDebt (balance slowDebt, 0, 0) = (400, 600, 0)"
proof -
  have 1: "minPayment slowDebt * 12 > balance slowDebt * apr slowDebt"
    by (simp add: slowDebt_def)
  have "payoffResults [slowDebt] 0 = [simulateDebtPayoff slowDebt 1 1]"
    by (simp add: payoffResults_def slowDebt_def)
  then have 2: "totalMonths (simulatePayoff [slowDebt] Avalanche 0) = 600"
    by (simp add: totalMonths_eq sortForAvalanche_def slowDebt_payoffMonth)
  from 1 2 slowDebt_baseline show ?thesis by simp
qed

text \<open>
  Claim C3, as amended. For every non-empty debt list \<open>totalMonths\<close> lies between 0 and
  the cap of 600, the cap included. For every debt with \<open>apr \<ge> 0\<close> and
  \<open>minPayment * 12 > balance * apr\<close>, the balances of the isolated minimum-payment
  simulation (the inner loop of the baseline) decrease strictly from month to month,
  starting from the debt's balance, for as long as the loop runs; the loop ends with a
  balance of at most 0.01 or after 600 months. The isolated replay of
  \<open>simulateDebtPayoff\<close> with the minimum payment shows the same balances, rounded to
  two decimals, in its monthly breakdown, which therefore never increase.
\<close>

theorem C3_months_capped_balance_decreasing:
  "(ds \<noteq> [] \<longrightarrow>
      0 \<le> totalMonths (simulatePayoff ds s x) \<and> totalMonths (simulatePayoff ds s x) \<le> 600) \<and>
   (0 \<le> apr d \<and> minPayment d * 12 > balance d * apr d \<longrightarrow>
      sorted_wrt (\<lambda>b b'. b > b') (balance d # baselineBalances d (balance d) 0) \<and>
      fst (baselineLoop d (balance d, 0, t)) = last (balance d # baselineBalances d (balance d) 0) \<and>
      length (baselineBalances d (balance d) 0) = baselineIterations d (balance d, 0, t) \<and>
      (fst (baselineLoop d (balance d, 0, t)) \<le> 0.01 \<or>
       fst (snd (baselineLoop d (balance d, 0, t))) = 600) \<and>
      map balance_pm (monthlyBreakdown (simulateDebtPayoff d (minPayment d) 1)) =
        map round2 (baselineBalances d (balance d) 0) \<and>
      sorted_wrt (\<lambda>b b'. b \<ge> b')
        (map balance_pm (monthlyBreakdown (simulateDebtPayoff d (minPayment d) 1))))"
proof -
  have months: "0 \<le> totalMonths (simulatePayoff ds s x) \<and> totalMonths (simulatePayoff ds s x) \<le> 600"
    if "ds \<noteq> []"
    using that by (rule totalMonths_bounds)
  have decreasing: "sorted_wrt (\<lambda>b b'. b > b') (balance d # baselineBalances d (balance d) 0)"
    if "0 \<le> apr d" "minPayment d * 12 > balance d * apr d"
    using that by (rule baselineBalances_decreasing)
  then have rounded: "sorted_wrt (\<lambda>b b'. b \<ge> b')
        (map balance_pm (monthlyBreakdown (simulateDebtPayoff d (minPayment d) 1)))"
    if "0 \<le> apr d" "minPayment d * 12 > balance d * apr d"
    using that sorted_wrt_round2[of "baselineBalances d (balance d) 0"]
    by (simp add: replay_breakdown_balances)
  from months decreasing rounded baselineBalances_loop[of d "balance d" 0 t]
    baselineLoop_exit[of 0 d "balance d" t] replay_breakdown_balances[of d]
  show ?thesis by simp
qed

text \<open>
  The theorem at the three debts of the test suite, for the credit card: 50000 at 42%
  with a minimum payment of 5000.
\<close>

theorem C3_months_capped_balance_decreasing_witness:
  "[creditCard, personalLoan, homeLoan] \<noteq> [] \<and>
   0 \<le> apr creditCard \<and> minPayment creditCard * 12 > balance creditCard * apr creditCard \<and>
   totalMonths (simulatePayoff [creditCard, personalLoan, homeLoan] Avalanche 0) \<le> 600 \<and>
   sorted_wrt (\<lambda>b b'. b > b') (balance creditCard # baselineBalances creditCard (balance creditCard) 0)"
proof -
  have h: "[creditCard, personalLoan, homeLoan] \<noteq> []"
    "0 \<le> apr creditCard \<and> minPayment creditCard * 12 > balance creditCard * apr creditCard"
    by (simp_all add: creditCard_def)
  from C3_months_capped_balance_decreasing[of "[creditCard, personalLoan, homeLoan]" Avalanche 0 creditCard 0] h
  show ?thesis by blast
qed

subsection \<open>The cascading loop at two debts\<close>

lemma month1: "forDebts 1000 [] [trackDebt smallDebt, trackDebt largeDebt] 0 =
   ([(trackDebt smallDebt)\<lparr>currentBalance := 0, paid := True\<rparr>,
     (trackDebt largeDebt)\<lparr>currentBalance := 21 / 2\<rparr>], 23 / 2)"
  by (simp add: trackDebt_def smallDebt_def largeDebt_def paymentFor_def applyPayment_def unpaid_def
      calculateMonthlyInterest_def DebtForPayoff.extend_def Let_def)

lemma month2: "forDebts 1050 [] [(trackDebt smallDebt)\<lparr>currentBalance := 0, paid := True\<rparr>,
     (trackDebt largeDebt)\<lparr>currentBalance := 21 / 2\<rparr>] (23 / 2) =
   ([(trackDebt smallDebt)\<lparr>currentBalance := 0, paid := True\<rparr>,
     (trackDebt largeDebt)\<lparr>currentBalance := 0, paid := True\<rparr>], 2321 / 200)"
  by (simp add: trackDebt_def smallDebt_def largeDebt_def paymentFor_def applyPayment_def unpaid_def
      calculateMonthlyInterest_def DebtForPayoff.extend_def Let_def)

lemma trackDebt_fields:
  "paid (trackDebt d) = False" "currentBalance (trackDebt d) = balance d"
  "minPayment (trackDebt d) = minPayment d" "apr (trackDebt d) = apr d"
  "id_debt (trackDebt d) = id_debt d"
  by (simp_all add: trackDebt_def DebtForPayoff.extend_def)

lemma cascade_two_debts:
  "cascadeLoop 1000 (cascadeStart [smallDebt, largeDebt]) =
     \<lparr>remainingDebts = [(trackDebt smallDebt)\<lparr>currentBalance := 0, paid := True\<rparr>,
                        (trackDebt largeDebt)\<lparr>currentBalance := 0, paid := True\<rparr>],
      currentMonth = 3, totalInterestPaid_c = 2321 / 200\<rparr>"
proof -
  let ?s0 = "cascadeStart [smallDebt, largeDebt]"
  let ?s1 = "\<lparr>remainingDebts = [(trackDebt smallDebt)\<lparr>currentBalance := 0, paid := True\<rparr>,
     (trackDebt largeDebt)\<lparr>currentBalance := 21 / 2\<rparr>], currentMonth = 2, totalInterestPaid_c = 23 / 2\<rparr>"
  let ?s2 = "\<lparr>remainingDebts = [(trackDebt smallDebt)\<lparr>currentBalance := 0, paid := True\<rparr>,
                        (trackDebt largeDebt)\<lparr>currentBalance := 0, paid := True\<rparr>],
      currentMonth = 3, totalInterestPaid_c = 2321 / 200\<rparr>"
  have mp: "minPayment smallDebt = 50" by (simp add: smallDebt_def)
  have bl: "balance smallDebt = 100" "balance largeDebt = 1050"
    by (simp_all add: smallDebt_def largeDebt_def)
  have b1: "cascadeBody 1000 ?s0 = ?s1"
    by (simp add: cascadeBody_def cascadeStart_def trackDebt_fields month1 del: forDebts.simps)
  have b2: "cascadeBody 1000 ?s1 = ?s2"
    by (simp add: cascadeBody_def trackDebt_fields mp month2 del: forDebts.simps)
  have c0: "list_ex unpaid (remainingDebts ?s0) \<and> currentMonth ?s0 < 600"
    by (simp add: cascadeStart_def unpaid_def trackDebt_fields bl)
  have c1: "list_ex unpaid (remainingDebts ?s1) \<and> currentMonth ?s1 < 600"
    by (simp add: unpaid_def trackDebt_fields)
  have c2: "\<not> (list_ex unpaid (remainingDebts ?s2) \<and> currentMonth ?s2 < 600)"
    by (simp add: unpaid_def)
  have "cascadeLoop 1000 ?s0 = cascadeLoop 1000 (cascadeBody 1000 ?s0)"
    using c0 by (intro cascadeLoop_step) simp_all
  also have "\<dots> = cascadeLoop 1000 (cascadeBody 1000 ?s1)"
    unfolding b1 using c1 by (intro cascadeLoop_step) simp_all
  also have "\<dots> = ?s2"
    unfolding b2 using c2 by (rule cascadeLoop_stop)
  finally show ?thesis .
qed

text \<open>
  Claim C1, evaluated at the two debts \<open>smallDebt\<close> (balance 100) and \<open>largeDebt\<close>
  (balance 1050), both at 12% with a minimum payment of 50, snowball order, extra
  payment 1000. In the first month the priority debt is \<open>smallDebt\<close>; it receives
  \<open>min (50 + 1000) (100 + 1) = 101\<close> and is paid off. \<open>find\<close> is called again for
  \<open>largeDebt\<close> in the same month and now returns \<open>largeDebt\<close>, whose payment is
  \<open>min (50 + 1000) (1050 + 10.5) = 1050\<close> and not \<open>min 50 (1050 + 10.5) = 50\<close>: the
  extra amount is added to two debts in one month. The month leaves \<open>largeDebt\<close> at
  10.5, and the simulation reports a total interest of 11.61.
\<close>

theorem C1_extra_added_to_two_debts_in_one_month:
  "find unpaid [trackDebt smallDebt, trackDebt largeDebt] = Some (trackDebt smallDebt) \<and>
   paymentFor 1000 [trackDebt smallDebt, trackDebt largeDebt] (trackDebt smallDebt) 1 = 101 \<and>
   applyPayment (trackDebt smallDebt) 101 1 = (trackDebt smallDebt)\<lparr>currentBalance := 0, paid := True\<rparr> \<and>
   paymentFor 1000 [(trackDebt smallDebt)\<lparr>currentBalance := 0, paid := True\<rparr>, trackDebt largeDebt]
     (trackDebt largeDebt) (21 / 2) = 1050 \<and>
   min (minPayment largeDebt) (balance largeDebt + 21 / 2) = 50 \<and>
   forDebts 1000 [] [trackDebt smallDebt, trackDebt largeDebt] 0 =
     ([(trackDebt smallDebt)\<lparr>currentBalance := 0, paid := True\<rparr>,
       (trackDebt largeDebt)\<lparr>currentBalance := 21 / 2\<rparr>], 23 / 2) \<and>
   totalInterestPaid (simulatePayoff [smallDebt, largeDebt] Snowball 1000) = 1161 / 100"
proof -
  have 1: "find unpaid [trackDebt smallDebt, trackDebt largeDebt] = Some (trackDebt smallDebt)"
    by (simp add: unpaid_def trackDebt_def smallDebt_def DebtForPayoff.extend_def)
  have 2: "paymentFor 1000 [trackDebt smallDebt, trackDebt largeDebt] (trackDebt smallDebt) 1 = 101"
    by (simp add: paymentFor_def unpaid_def trackDebt_def smallDebt_def DebtForPayoff.extend_def)
  have 3: "applyPayment (trackDebt smallDebt) 101 1 = (trackDebt smallDebt)\<lparr>currentBalance := 0, paid := True\<rparr>"
    by (simp add: applyPayment_def trackDebt_def smallDebt_def DebtForPayoff.extend_def)
  have 4: "paymentFor 1000 [(trackDebt smallDebt)\<lparr>currentBalance := 0, paid := True\<rparr>, trackDebt largeDebt]
     (trackDebt largeDebt) (21 / 2) = 1050"
    by (simp add: paymentFor_def unpaid_def trackDebt_def smallDebt_def largeDebt_def DebtForPayoff.extend_def)
  have 5: "min (minPayment largeDebt) (balance largeDebt + 21 / 2) = 50"
    by (simp add: largeDebt_def)
  have sorted: "sortForSnowball [smallDebt, largeDebt] = [smallDebt, largeDebt]"
    by (simp add: sortForSnowball_def smallDebt_def largeDebt_def)
  have "round2 (2321 / 200) = 1161 / 100" by (simp add: round2_def)
  then have 7: "totalInterestPaid (simulatePayoff [smallDebt, largeDebt] Snowball 1000) = 1161 / 100"
    by (simp add: simulatePayoff_def Let_def sorted cascade_two_debts)
  from 1 2 3 4 5 month1 7 show ?thesis by blast
qed

end
